theory Spec2Isabelle
  imports Main "HOL-Library.Sublist"
begin

section \<open>The document tree\<close>

text \<open>
  Both scripts work on the browser's document only through \<open>querySelectorAll\<close>,
  \<open>querySelector\<close>, \<open>closest\<close>, the \<open>value\<close> of a select element and the
  \<open>style.display\<close> of an element. The document is a tree of elements; an element is
  addressed by its path from the root (the list of child indices), which plays the role of
  the object reference of the script. The scripts never change the structure, the ids or
  the classes of the tree in \<open>offers_dynamic.js\<close>, so the tree is kept apart from the two
  properties that change: \<open>style.display\<close> (written by the script) and \<open>value\<close>
  (written by the user).
\<close>

type_synonym path = "nat list"

record element =
  tag :: string
  ident :: "string option"
  classes :: "string list"

datatype node = Node element "node list"

fun subtree :: "node \<Rightarrow> path \<Rightarrow> node option" where
  "subtree t [] = Some t"
| "subtree (Node e ks) (i # p) = (if i < length ks then subtree (ks ! i) p else None)"

text \<open>The strict descendants of a node in document order (pre-order), as relative paths.\<close>

fun descendants :: "node \<Rightarrow> path list"
  and descendants_from :: "nat \<Rightarrow> node list \<Rightarrow> path list" where
  "descendants (Node e ks) = descendants_from 0 ks"
| "descendants_from i [] = []"
| "descendants_from i (k # ks) =
     ([i] # map ((#) i) (descendants k)) @ descendants_from (Suc i) ks"

subsection \<open>Selectors\<close>

text \<open>
  The selectors of the two scripts are comma lists of compound selectors made of a tag
  name, class names and the attribute test \<open>[id$=s]\<close> (the id ends with \<open>s\<close>; an empty
  \<open>s\<close> matches nothing).
\<close>

datatype simple = Tag string | Cls string | IdEnds string

type_synonym compound = "simple list"

type_synonym selector = "compound list"

definition ends_with :: "string \<Rightarrow> string \<Rightarrow> bool" where
  "ends_with s suf = (length suf \<le> length s \<and> drop (length s - length suf) s = suf)"

fun matches_simple :: "element \<Rightarrow> simple \<Rightarrow> bool" where
  "matches_simple e (Tag t) = (tag e = t)"
| "matches_simple e (Cls c) = (c \<in> set (classes e))"
| "matches_simple e (IdEnds s) =
     (case ident e of None \<Rightarrow> False | Some i \<Rightarrow> s \<noteq> [] \<and> ends_with i s)"

definition matches :: "element \<Rightarrow> selector \<Rightarrow> bool" where
  "matches e sel = list_ex (list_all (matches_simple e)) sel"

definition matches_at :: "node \<Rightarrow> selector \<Rightarrow> path \<Rightarrow> bool" where
  "matches_at t sel p = (case subtree t p of None \<Rightarrow> False | Some (Node e ks) \<Rightarrow> matches e sel)"

text \<open>
  \<open>(ctx || document).querySelectorAll(sel)\<close>: on the document every element is a
  candidate, on an element only its strict descendants are. The result is in document
  order.
\<close>

definition querySelectorAll :: "node \<Rightarrow> path option \<Rightarrow> selector \<Rightarrow> path list" where
  "querySelectorAll t ctx sel =
     (case ctx of
        None \<Rightarrow> filter (matches_at t sel) ([] # descendants t)
      | Some c \<Rightarrow>
          (case subtree t c of
             None \<Rightarrow> []
           | Some s \<Rightarrow> filter (matches_at t sel) (map ((@) c) (descendants s))))"

definition querySelector :: "node \<Rightarrow> path option \<Rightarrow> selector \<Rightarrow> path option" where
  "querySelector t ctx sel =
     (case querySelectorAll t ctx sel of [] \<Rightarrow> None | p # ps \<Rightarrow> Some p)"

text \<open>
  \<open>e.closest(sel)\<close>: the nearest element matching \<open>sel\<close> among \<open>e\<close> itself and its
  ancestors, up to the root of the document.
\<close>

definition closest :: "node \<Rightarrow> path \<Rightarrow> selector \<Rightarrow> path option" where
  "closest t p sel = find (matches_at t sel) (rev (prefixes p))"

section \<open>header.js: the mobile drawer\<close>

text \<open>
  The handler of \<open>DOMContentLoaded\<close> looks four elements up once and wires the drawer
  (lines 2 to 23 of \<open>header.js\<close>). The class lists are the state that the click
  listeners change; \<open>document.body\<close> is the body element of the loaded document. The
  listeners of the submenu and of the dropdown (lines 25 to 50) are left out: they neither
  call \<open>closeDrawer\<close> nor touch what it reads.
\<close>

datatype error = TypeError

datatype click_handler = OpenDrawer path | CloseDrawer "path option"

record header_state =
  body :: path
  classList :: "path \<Rightarrow> string list"

definition classList_add :: "string \<Rightarrow> string list \<Rightarrow> string list" where
  "classList_add c cs = (if c \<in> set cs then cs else cs @ [c])"

definition classList_remove :: "string \<Rightarrow> string list \<Rightarrow> string list" where
  "classList_remove c cs = filter (\<lambda>x. x \<noteq> c) cs"

text \<open>
  The listener of the toggle keeps the drawer it found (the listener is only registered
  when there is one).
\<close>

definition openDrawer :: "path \<Rightarrow> header_state \<Rightarrow> error + header_state" where
  "openDrawer mobileDrawer st =
     (let st1 = st\<lparr>classList := (classList st)
                  (mobileDrawer := classList_add ''is-open'' (classList st mobileDrawer))\<rparr>
      in Inr (st1\<lparr>classList := (classList st1)
                  (body st1 := classList_add ''no-scroll'' (classList st1 (body st1)))\<rparr>))"

text \<open>
  \<open>closeDrawer\<close> reads \<open>mobileDrawer.classList\<close> first; on \<open>null\<close> (no element
  matched \<open>.mobile-drawer\<close>) the property access throws a TypeError.
\<close>

definition closeDrawer :: "path option \<Rightarrow> header_state \<Rightarrow> error + header_state" where
  "closeDrawer mobileDrawer st =
     (case mobileDrawer of
        None \<Rightarrow> Inl TypeError
      | Some d \<Rightarrow>
          (let st1 = st\<lparr>classList := (classList st)
                       (d := classList_remove ''is-open'' (classList st d))\<rparr>
           in Inr (st1\<lparr>classList := (classList st1)
                       (body st1 := classList_remove ''no-scroll'' (classList st1 (body st1)))\<rparr>)))"

definition header_loaded :: "node \<Rightarrow> (path \<times> click_handler) list" where
  "header_loaded t =
     (let headerToggle = querySelector t None [[Cls ''header-toggle'']];
          mobileDrawer = querySelector t None [[Cls ''mobile-drawer'']];
          overlay = querySelector t None [[Cls ''mobile-drawer__overlay'']];
          closeBtn = querySelector t None [[Cls ''mobile-drawer__close'']]
      in (case headerToggle of
            None \<Rightarrow> []
          | Some h \<Rightarrow> (case mobileDrawer of None \<Rightarrow> [] | Some d \<Rightarrow> [(h, OpenDrawer d)]))
         @ (case overlay of None \<Rightarrow> [] | Some ov \<Rightarrow> [(ov, CloseDrawer mobileDrawer)])
         @ (case closeBtn of None \<Rightarrow> [] | Some cb \<Rightarrow> [(cb, CloseDrawer mobileDrawer)]))"

fun run_click :: "click_handler \<Rightarrow> header_state \<Rightarrow> error + header_state" where
  "run_click (OpenDrawer d) st = openDrawer d st"
| "run_click (CloseDrawer d) st = closeDrawer d st"

text \<open>
  A click on an element runs the listeners registered on it in order. An exception leaves
  its listener, is reported, and the next listener still runs; the result is the state
  and the exceptions that were thrown.
\<close>

definition click ::
  "(path \<times> click_handler) list \<Rightarrow> path \<Rightarrow> header_state \<Rightarrow> header_state \<times> error list" where
  "click ls target st =
     fold (\<lambda>(el, h) (st, errs).
             if el = target
             then (case run_click h st of Inl e \<Rightarrow> (st, errs @ [e]) | Inr st' \<Rightarrow> (st', errs))
             else (st, errs))
       ls (st, [])"

section \<open>offers\_dynamic.js\<close>

text \<open>
  \<open>String.prototype.toLowerCase\<close> on the letters A to Z; other characters are kept. (No
  other character lower-cases to a letter of the four mode names, so the comparison with
  them is the one of the script.)
\<close>

definition lower_char :: "char \<Rightarrow> char" where
  "lower_char c =
     (case map_of (zip ''ABCDEFGHIJKLMNOPQRSTUVWXYZ'' ''abcdefghijklmnopqrstuvwxyz'') c of
        None \<Rightarrow> c
      | Some l \<Rightarrow> l)"

definition toLowerCase :: "string \<Rightarrow> string" where
  "toLowerCase s = map lower_char s"

text \<open>
  The page: the tree, the \<open>style.display\<close> of every element, the \<open>value\<close> of every
  element (\<open>None\<close> where the property is undefined) and the change listeners in the order
  of their registration. A handler is the closure \<open>toggleOfferFields\<close> or \<open>toggleFields\<close>
  of a form: it keeps the \<open>inline\<close> and the \<open>select\<close> of its form.
\<close>

datatype handler = ToggleOfferFields path path | ToggleFields path path

record page =
  root :: node
  display :: "path \<Rightarrow> string"
  el_value :: "path \<Rightarrow> string option"
  listeners :: "(path \<times> handler) list"

definition fields :: "string list" where
  "fields = [''hours'', ''classes'', ''students'', ''instructors'', ''level'']"

text \<open>
  The body shared by the two \<open>fields.forEach\<close> loops: look the row of \<open>f\<close> up, return
  when there is none, otherwise assign its \<open>style.display\<close>.
\<close>

definition apply_rows ::
  "(string \<Rightarrow> path option) \<Rightarrow> (string \<Rightarrow> string) \<Rightarrow> string list
     \<Rightarrow> (path \<Rightarrow> string) \<Rightarrow> (path \<Rightarrow> string)" where
  "apply_rows row shown fs d =
     fold (\<lambda>f d. case row f of None \<Rightarrow> d | Some field \<Rightarrow> d(field := shown f)) fs d"

text \<open>
  The same loop with the exception of the property access written out: the assignment
  \<open>field.style.display = v\<close> throws a TypeError when \<open>field\<close> is \<open>null\<close>, and the guard
  \<open>if (!field) return\<close> stands before it. An exception thrown by the callback leaves
  \<open>forEach\<close>.
\<close>

definition assign_display ::
  "path option \<Rightarrow> string \<Rightarrow> (path \<Rightarrow> string) \<Rightarrow> error + (path \<Rightarrow> string)" where
  "assign_display field v d =
     (case field of None \<Rightarrow> Inl TypeError | Some r \<Rightarrow> Inr (d(r := v)))"

definition field_step ::
  "(string \<Rightarrow> path option) \<Rightarrow> (string \<Rightarrow> string) \<Rightarrow> string
     \<Rightarrow> (path \<Rightarrow> string) \<Rightarrow> error + (path \<Rightarrow> string)" where
  "field_step row shown f d =
     (let field = row f in if field = None then Inr d else assign_display field (shown f) d)"

fun run_fields ::
  "(string \<Rightarrow> path option) \<Rightarrow> (string \<Rightarrow> string) \<Rightarrow> string list
     \<Rightarrow> (path \<Rightarrow> string) \<Rightarrow> error + (path \<Rightarrow> string)" where
  "run_fields row shown [] d = Inr d"
| "run_fields row shown (f # fs) d =
     (case field_step row shown f d of
        Inl e \<Rightarrow> Inl e
      | Inr d' \<Rightarrow> run_fields row shown fs d')"

subsection \<open>First variant: initOfferTypeFields\<close>

definition offer_inlines :: selector where
  "offer_inlines = [[Tag ''div'', Cls ''inline-related''], [Cls ''inline-group'']]"

definition offer_type_select :: selector where
  "offer_type_select = [[Tag ''select'', IdEnds ''offer_type'']]"

text \<open>
  \<open>inline.querySelector(`[id$=${f}]`)?.closest(`.form-row, .field-${f}`) ||
  inline.querySelector(`.field-${f}`)\<close>
\<close>

definition offer_field_row :: "node \<Rightarrow> path \<Rightarrow> string \<Rightarrow> path option" where
  "offer_field_row t inline f =
     (case (case querySelector t (Some inline) [[IdEnds f]] of
              None \<Rightarrow> None
            | Some e \<Rightarrow> closest t e [[Cls ''form-row''], [Cls (''field-'' @ f)]]) of
        Some field \<Rightarrow> Some field
      | None \<Rightarrow> querySelector t (Some inline) [[Cls (''field-'' @ f)]])"

text \<open>The \<open>switch (val)\<close> of \<open>toggleOfferFields\<close>; \<open>None\<close> is an undefined value.\<close>

definition offer_switch :: "string option \<Rightarrow> string \<Rightarrow> string" where
  "offer_switch val f =
     (if val = Some ''lesson'' then
        (if f \<in> set [''hours'', ''students'', ''instructors''] then '''' else ''none'')
      else if val = Some ''course'' then
        (if f \<in> set [''classes'', ''level''] then '''' else ''none'')
      else if val = Some ''experience'' then
        (if f \<in> set [''level''] then '''' else ''none'')
      else if val = Some ''rental'' then ''none''
      else '''')"

text \<open>
  \<open>toggleOfferFields\<close> (lines 9 to 34), with the list that \<open>forEach\<close> runs over as a
  parameter; the script runs it over \<open>fields\<close>.
\<close>

definition toggleOfferFields_over :: "string list \<Rightarrow> path \<Rightarrow> path \<Rightarrow> page \<Rightarrow> page" where
  "toggleOfferFields_over fs inline select pg =
     (let val = map_option toLowerCase (el_value pg select) in
      pg\<lparr>display := apply_rows (offer_field_row (root pg) inline) (offer_switch val) fs
                       (display pg)\<rparr>)"

definition toggleOfferFields :: "path \<Rightarrow> path \<Rightarrow> page \<Rightarrow> page" where
  "toggleOfferFields inline select pg = toggleOfferFields_over fields inline select pg"

text \<open>
  The body of \<open>inlines.forEach\<close> (lines 4 to 37): return when the form has no selector,
  otherwise register the listener and evaluate once.
\<close>

definition init_offer_inline :: "path \<Rightarrow> page \<Rightarrow> page" where
  "init_offer_inline inline pg =
     (case querySelector (root pg) (Some inline) offer_type_select of
        None \<Rightarrow> pg
      | Some select \<Rightarrow>
          toggleOfferFields inline select
            (pg\<lparr>listeners := listeners pg @ [(select, ToggleOfferFields inline select)]\<rparr>))"


subsection \<open>Second variant: initOfferTypeToggles\<close>

definition toggle_inlines :: selector where
  "toggle_inlines = [[Tag ''div'', Cls ''inline-related'']]"

text \<open>\<open>inline.querySelector(`[id$=${f}]`)?.closest(".form-row")\<close>\<close>

definition toggle_field_row :: "node \<Rightarrow> path \<Rightarrow> string \<Rightarrow> path option" where
  "toggle_field_row t inline f =
     (case querySelector t (Some inline) [[IdEnds f]] of
        None \<Rightarrow> None
      | Some e \<Rightarrow> closest t e [[Cls ''form-row'']])"

text \<open>The \<open>if\<close> chain of \<open>toggleFields\<close>, on the raw value.\<close>

definition toggle_chain :: "string option \<Rightarrow> string \<Rightarrow> string" where
  "toggle_chain val f =
     (if val = Some ''lesson'' then
        (if f \<in> set [''hours'', ''students'', ''instructors''] then '''' else ''none'')
      else if val = Some ''course'' then
        (if f \<in> set [''classes'', ''level''] then '''' else ''none'')
      else if val = Some ''experience'' then
        (if f \<in> set [''level''] then '''' else ''none'')
      else ''none'')"

text \<open>\<open>toggleFields\<close> (lines 59 to 76), with the list of fields as a parameter.\<close>

definition toggleFields_over :: "string list \<Rightarrow> path \<Rightarrow> path \<Rightarrow> page \<Rightarrow> page" where
  "toggleFields_over fs inline select pg =
     (let val = el_value pg select in
      pg\<lparr>display := apply_rows (toggle_field_row (root pg) inline) (toggle_chain val) fs
                       (display pg)\<rparr>)"

definition toggleFields :: "path \<Rightarrow> path \<Rightarrow> page \<Rightarrow> page" where
  "toggleFields inline select pg = toggleFields_over fields inline select pg"

text \<open>The body of \<open>inlines.forEach\<close> (lines 54 to 79).\<close>

definition init_toggle_inline :: "path \<Rightarrow> page \<Rightarrow> page" where
  "init_toggle_inline inline pg =
     (case querySelector (root pg) (Some inline) offer_type_select of
        None \<Rightarrow> pg
      | Some select \<Rightarrow>
          toggleFields inline select
            (pg\<lparr>listeners := listeners pg @ [(select, ToggleFields inline select)]\<rparr>))"


subsection \<open>Events\<close>

text \<open>
  A change event on a select runs the listeners registered on it, in the order of their
  registration. The \<open>formset:added\<close> listener of either script runs the initialisation on
  the inserted form (\<open>None\<close> when the expression for it gives no element, so that the
  whole document is scanned).
\<close>

fun run_handler :: "handler \<Rightarrow> page \<Rightarrow> page" where
  "run_handler (ToggleOfferFields inline select) pg = toggleOfferFields inline select pg"
| "run_handler (ToggleFields inline select) pg = toggleFields inline select pg"

definition dispatch_change :: "path \<Rightarrow> page \<Rightarrow> page" where
  "dispatch_change target pg =
     fold (\<lambda>(el, h) pg. if el = target then run_handler h pg else pg) (listeners pg) pg"





section \<open>The rule table of the specification\<close>

text \<open>
  The visible fields of each mode as the specification lists them: lesson shows hours,
  students and instructors; course shows classes and level; experience shows level;
  rental shows nothing; any other value shows all five.
\<close>

definition rule_table :: "string \<Rightarrow> string set" where
  "rule_table mode =
     (if mode = ''lesson'' then {''hours'', ''students'', ''instructors''}
      else if mode = ''course'' then {''classes'', ''level''}
      else if mode = ''experience'' then {''level''}
      else if mode = ''rental'' then {}
      else set fields)"

definition recognized :: "string set" where
  "recognized = {''lesson'', ''course'', ''experience'', ''rental''}"

section \<open>Example documents\<close>

text \<open>
  An admin page with one inline group of two stacked forms: every form has a row for the
  mode selector and a row for each of the five fields.
\<close>

definition elem :: "string \<Rightarrow> string option \<Rightarrow> string list \<Rightarrow> element" where
  "elem t i cs = \<lparr>tag = t, ident = i, classes = cs\<rparr>"

definition field_row :: "string \<Rightarrow> string \<Rightarrow> string \<Rightarrow> node" where
  "field_row tg pre f =
     Node (elem ''div'' None [''form-row'', ''field-'' @ f])
       [Node (elem tg (Some (pre @ f)) []) []]"

definition inline_form :: "string \<Rightarrow> node list \<Rightarrow> node" where
  "inline_form pre rows = Node (elem ''div'' (Some (pre @ ''form'')) [''inline-related''])
     (field_row ''select'' pre ''offer_type'' # rows)"

definition admin_root :: node where
  "admin_root =
     Node (elem ''html'' None [])
       [Node (elem ''body'' None [])
          [Node (elem ''div'' None [''inline-group''])
             [inline_form ''id_offers-0-'' (map (field_row ''input'' ''id_offers-0-'') fields),
              inline_form ''id_offers-1-'' (map (field_row ''input'' ''id_offers-1-'') fields)]]]"

definition admin_page :: "string \<Rightarrow> string \<Rightarrow> page" where
  "admin_page v0 v1 =
     \<lparr>root = admin_root, display = (\<lambda>p. ''''),
      el_value = (\<lambda>p. if p = [0, 0, 0, 0, 0] then Some v0
                       else if p = [0, 0, 1, 0, 0] then Some v1 else None),
      listeners = []\<rparr>"

text \<open>
  A page with a form nested in another (as nested inlines are): the outer form has its
  own mode selector and a row for hours only, the inner one all five rows.
\<close>

definition nested_root :: node where
  "nested_root =
     Node (elem ''html'' None [])
       [Node (elem ''body'' None [])
          [inline_form ''id_a-0-''
             [field_row ''input'' ''id_a-0-'' ''hours'',
              inline_form ''id_a-0-b-0-'' (map (field_row ''input'' ''id_a-0-b-0-'') fields)]]]"

definition nested_page :: "string \<Rightarrow> string \<Rightarrow> page" where
  "nested_page v0 v1 =
     \<lparr>root = nested_root, display = (\<lambda>p. ''''),
      el_value = (\<lambda>p. if p = [0, 0, 0, 0] then Some v0
                       else if p = [0, 0, 2, 0, 0] then Some v1 else None),
      listeners = []\<rparr>"

text \<open>
  A page with a form whose layout has no classes field and no level field, and a second
  inline without a mode selector.
\<close>

definition short_root :: node where
  "short_root =
     Node (elem ''html'' None [])
       [Node (elem ''body'' None [])
          [inline_form ''id_offers-0-''
             (map (field_row ''input'' ''id_offers-0-'') [''hours'', ''students'', ''instructors'']),
           Node (elem ''div'' (Some ''id_notes-0-form'') [''inline-related''])
             [field_row ''input'' ''id_notes-0-'' ''hours'']]]"

definition short_page :: "string \<Rightarrow> page" where
  "short_page v0 =
     \<lparr>root = short_root, display = (\<lambda>p. ''''),
      el_value = (\<lambda>p. if p = [0, 0, 0, 0] then Some v0 else None),
      listeners = []\<rparr>"

text \<open>
  A page with two forms whose hours and classes fields stand on one line. In the first
  form the line is laid out as the admin does it (a \<open>form-row\<close> with one \<open>fieldBox\<close> for
  each field); in the second the two inputs stand in the \<open>form-row\<close> itself.
\<close>

definition paired_root :: node where
  "paired_root =
     Node (elem ''html'' None [])
       [Node (elem ''body'' None [])
          [inline_form ''id_offers-0-''
             [Node (elem ''div'' None [''form-row'', ''field-hours'', ''field-classes''])
                [Node (elem ''div'' None [''fieldBox'', ''field-hours''])
                   [Node (elem ''input'' (Some ''id_offers-0-hours'') []) []],
                 Node (elem ''div'' None [''fieldBox'', ''field-classes''])
                   [Node (elem ''input'' (Some ''id_offers-0-classes'') []) []]]],
           inline_form ''id_offers-1-''
             [Node (elem ''div'' None [''form-row''])
                [Node (elem ''input'' (Some ''id_offers-1-hours'') []) [],
                 Node (elem ''input'' (Some ''id_offers-1-classes'') []) []]]]]"

definition paired_page :: "string \<Rightarrow> page" where
  "paired_page v =
     \<lparr>root = paired_root, display = (\<lambda>p. ''''),
      el_value = (\<lambda>p. if p = [0, 0, 0, 0] \<or> p = [0, 1, 0, 0] then Some v else None),
      listeners = []\<rparr>"

text \<open>
  A page with an inline group that holds an inline without a mode selector (it has a row
  for hours) and, after it, a form with the selector and the five rows.
\<close>

definition mixed_root :: node where
  "mixed_root =
     Node (elem ''html'' None [])
       [Node (elem ''body'' None [])
          [Node (elem ''div'' None [''inline-group''])
             [Node (elem ''div'' (Some ''id_notes-0-form'') [''inline-related''])
                [field_row ''input'' ''id_notes-0-'' ''hours''],
              inline_form ''id_offers-0-'' (map (field_row ''input'' ''id_offers-0-'') fields)]]]"

definition mixed_page :: "string \<Rightarrow> page" where
  "mixed_page v =
     \<lparr>root = mixed_root, display = (\<lambda>p. ''''),
      el_value = (\<lambda>p. if p = [0, 0, 1, 0, 0] then Some v else None),
      listeners = []\<rparr>"

text \<open>A header with the overlay and the close button of the drawer, and no drawer.\<close>

definition header_root :: node where
  "header_root =
     Node (elem ''html'' None [])
       [Node (elem ''body'' None [])
          [Node (elem ''button'' None [''header-toggle'']) [],
           Node (elem ''div'' None [''mobile-drawer__overlay'']) [],
           Node (elem ''button'' None [''mobile-drawer__close'']) []]]"

definition header_start :: header_state where
  "header_start = \<lparr>body = [0], classList = (\<lambda>p. [])\<rparr>"

section \<open>Conventions on the document\<close>

text \<open>
  The row of a field is the element that the loop of a variant resolves for it.
  \<open>rows_agree\<close>: two fields that resolve to the same row are fields that the rule table
  treats alike for the mode (both shown or both hidden); so it is when different fields
  have different rows.
  \<open>rows_inside\<close>: every row that a form resolves lies in the container of the form
  (\<open>closest\<close> did not leave it).
\<close>

definition rows_agree :: "(string \<Rightarrow> path option) \<Rightarrow> string \<Rightarrow> bool" where
  "rows_agree row mode =
     (\<forall>f\<in>set fields. \<forall>g\<in>set fields. row f \<noteq> None \<and> row f = row g \<longrightarrow>
        (f \<in> rule_table mode) = (g \<in> rule_table mode))"

definition rows_inside :: "path \<Rightarrow> (string \<Rightarrow> path option) \<Rightarrow> bool" where
  "rows_inside inline row =
     (\<forall>f\<in>set fields. case row f of None \<Rightarrow> True | Some r \<Rightarrow> prefix inline r)"


section \<open>Properties of the row loop\<close>

lemma rows_agreeD:
  assumes "rows_agree row mode" and "f \<in> set fields" and "g \<in> set fields"
    and "row f = Some r" and "row g = Some r"
  shows "(f \<in> rule_table mode) = (g \<in> rule_table mode)"
proof -
  from assms(4,5) have "row f \<noteq> None \<and> row f = row g" by simp
  with assms(1,2,3) show ?thesis unfolding rows_agree_def by blast
qed

lemma rows_insideD:
  assumes "rows_inside inline row" and "f \<in> set fields" and "row f = Some r"
  shows "prefix inline r"
proof -
  from assms(1,2) have "case row f of None \<Rightarrow> True | Some r \<Rightarrow> prefix inline r"
    unfolding rows_inside_def by blast
  with assms(3) show ?thesis by simp
qed

lemma apply_rows_Nil: "apply_rows row shown [] d = d"
  by (simp add: apply_rows_def)

lemma apply_rows_snoc:
  "apply_rows row shown (fs @ [f]) d =
     (case row f of None \<Rightarrow> apply_rows row shown fs d
      | Some r \<Rightarrow> (apply_rows row shown fs d)(r := shown f))"
  by (simp add: apply_rows_def split: option.split)

text \<open>The display of an element after the loop: the last field resolving to it decides.\<close>

lemma apply_rows_at:
  "apply_rows row shown fs d r =
     (case find (\<lambda>f. row f = Some r) (rev fs) of None \<Rightarrow> d r | Some f \<Rightarrow> shown f)"
proof (induction fs rule: rev_induct)
  case Nil
  show ?case by (simp add: apply_rows_Nil)
next
  case (snoc f fs)
  show ?case
  proof (cases "row f")
    case None
    with snoc show ?thesis by (simp add: apply_rows_snoc)
  next
    case (Some q)
    with snoc show ?thesis by (simp add: apply_rows_snoc)
  qed
qed

lemma find_SomeD: "find P xs = Some x \<Longrightarrow> x \<in> set xs \<and> P x"
  by (induction xs) (auto split: if_splits)

lemma apply_rows_frame:
  assumes "\<And>f. f \<in> set fs \<Longrightarrow> row f \<noteq> Some r"
  shows "apply_rows row shown fs d r = d r"
proof -
  have "find (\<lambda>f. row f = Some r) (rev fs) = None"
    using assms by (simp add: find_None_iff)
  then show ?thesis by (simp add: apply_rows_at)
qed

lemma apply_rows_written:
  assumes "f \<in> set fs" and "row f = Some r"
    and "\<And>g. g \<in> set fs \<Longrightarrow> row g = Some r \<Longrightarrow> shown g = shown f"
  shows "apply_rows row shown fs d r = shown f"
proof (cases "find (\<lambda>f. row f = Some r) (rev fs)")
  case None
  with assms(1,2) show ?thesis by (auto simp: find_None_iff)
next
  case (Some g)
  then have "g \<in> set fs" and "row g = Some r"
    by (auto dest: find_SomeD)
  with assms(3) Some show ?thesis by (simp add: apply_rows_at)
qed

lemma apply_rows_assigned:
  assumes "f \<in> set fs" and "row f = Some r"
  shows "\<exists>h\<in>set fs. row h = Some r \<and> apply_rows row shown fs d r = shown h"
proof (cases "find (\<lambda>f. row f = Some r) (rev fs)")
  case None
  with assms show ?thesis by (auto simp: find_None_iff)
next
  case (Some g)
  then have "g \<in> set fs" and "row g = Some r"
    by (auto dest: find_SomeD)
  with Some show ?thesis by (auto simp: apply_rows_at)
qed

lemma apply_rows_idem:
  "apply_rows row shown fs (apply_rows row shown fs d) = apply_rows row shown fs d"
proof
  fix r
  show "apply_rows row shown fs (apply_rows row shown fs d) r = apply_rows row shown fs d r"
    by (cases "find (\<lambda>f. row f = Some r) (rev fs)") (simp_all add: apply_rows_at)
qed

lemma apply_rows_skip:
  assumes "row f = None"
  shows "apply_rows row shown fs d = apply_rows row shown (removeAll f fs) d"
  using assms unfolding apply_rows_def
  by (induction fs arbitrary: d) auto

lemma apply_rows_order:
  assumes sets: "set fs = set gs"
    and agree: "\<And>f g r. f \<in> set fs \<Longrightarrow> g \<in> set fs \<Longrightarrow> row f = Some r \<Longrightarrow> row g = Some r
           \<Longrightarrow> shown f = shown g"
  shows "apply_rows row shown fs d = apply_rows row shown gs d"
proof
  fix r
  show "apply_rows row shown fs d r = apply_rows row shown gs d r"
  proof (cases "\<exists>f\<in>set fs. row f = Some r")
    case True
    then obtain f where f: "f \<in> set fs" "row f = Some r" by blast
    have same: "shown g = shown f" if "g \<in> set fs" "row g = Some r" for g
      using agree [OF that(1) f(1) that(2) f(2)] .
    have "apply_rows row shown fs d r = shown f"
      using f(1) f(2) same by (rule apply_rows_written)
    moreover have "apply_rows row shown gs d r = shown f"
    proof (rule apply_rows_written)
      show "f \<in> set gs" using f(1) sets by blast
      show "row f = Some r" by (rule f(2))
      show "shown g = shown f" if "g \<in> set gs" "row g = Some r" for g
        using same that sets by blast
    qed
    ultimately show ?thesis by (rule trans [OF _ sym])
  next
    case False
    then have no_fs: "row f \<noteq> Some r" if "f \<in> set fs" for f using that by blast
    then have no_gs: "row f \<noteq> Some r" if "f \<in> set gs" for f using that sets by blast
    have "apply_rows row shown fs d r = d r" using no_fs by (rule apply_rows_frame)
    moreover have "apply_rows row shown gs d r = d r" using no_gs by (rule apply_rows_frame)
    ultimately show ?thesis by (rule trans [OF _ sym])
  qed
qed

text \<open>The loop never throws: it is the total loop \<open>apply_rows\<close>.\<close>

lemma run_fields_apply_rows:
  "run_fields row shown fs d = Inr (apply_rows row shown fs d)"
proof (induction fs arbitrary: d)
  case Nil
  show ?case by (simp add: apply_rows_def)
next
  case (Cons f fs)
  show ?case
  proof (cases "row f")
    case None
    then have "run_fields row shown (f # fs) d = run_fields row shown fs d"
      by (simp add: field_step_def)
    also have "\<dots> = Inr (apply_rows row shown fs d)"
      by (rule Cons)
    also have "apply_rows row shown fs d = apply_rows row shown (f # fs) d"
      using None by (simp add: apply_rows_def)
    finally show ?thesis .
  next
    case (Some r)
    then have "run_fields row shown (f # fs) d = run_fields row shown fs (d(r := shown f))"
      by (simp add: field_step_def assign_display_def)
    also have "\<dots> = Inr (apply_rows row shown fs (d(r := shown f)))"
      by (rule Cons)
    also have "apply_rows row shown fs (d(r := shown f)) = apply_rows row shown (f # fs) d"
      using Some by (simp add: apply_rows_def)
    finally show ?thesis .
  qed
qed

text \<open>The two loops on a page.\<close>

lemma toggleOfferFields_over_simps:
  "root (toggleOfferFields_over fs inline select pg) = root pg"
  "el_value (toggleOfferFields_over fs inline select pg) = el_value pg"
  "listeners (toggleOfferFields_over fs inline select pg) = listeners pg"
  "display (toggleOfferFields_over fs inline select pg) =
     apply_rows (offer_field_row (root pg) inline)
       (offer_switch (map_option toLowerCase (el_value pg select))) fs (display pg)"
  by (simp_all add: toggleOfferFields_over_def Let_def)

lemma toggleFields_over_simps:
  "root (toggleFields_over fs inline select pg) = root pg"
  "el_value (toggleFields_over fs inline select pg) = el_value pg"
  "listeners (toggleFields_over fs inline select pg) = listeners pg"
  "display (toggleFields_over fs inline select pg) =
     apply_rows (toggle_field_row (root pg) inline) (toggle_chain (el_value pg select)) fs
       (display pg)"
  by (simp_all add: toggleFields_over_def Let_def)

section \<open>The rules of the two variants\<close>

text \<open>
  The \<open>switch\<close> of the first variant and the \<open>if\<close> chain of the second agree with the
  rule table on the four recognized modes; elsewhere the first shows and the second hides.
\<close>

lemma offer_switch_modes:
  "\<forall>f\<in>set fields. offer_switch (Some ''lesson'') f = (if f \<in> rule_table ''lesson'' then '''' else ''none'')"
  "\<forall>f\<in>set fields. offer_switch (Some ''course'') f = (if f \<in> rule_table ''course'' then '''' else ''none'')"
  "\<forall>f\<in>set fields. offer_switch (Some ''experience'') f = (if f \<in> rule_table ''experience'' then '''' else ''none'')"
  "\<forall>f\<in>set fields. offer_switch (Some ''rental'') f = (if f \<in> rule_table ''rental'' then '''' else ''none'')"
  by (simp_all add: fields_def offer_switch_def rule_table_def)

lemma offer_switch_table:
  assumes "mode \<in> recognized" and "f \<in> set fields"
  shows "offer_switch (Some mode) f = (if f \<in> rule_table mode then '''' else ''none'')"
proof -
  from assms(1) consider "mode = ''lesson''" | "mode = ''course''" | "mode = ''experience''"
    | "mode = ''rental''"
    unfolding recognized_def by blast
  then show ?thesis using offer_switch_modes assms(2) by cases blast+
qed

lemma toggle_chain_modes:
  "\<forall>f\<in>set fields. toggle_chain (Some ''lesson'') f = (if f \<in> rule_table ''lesson'' then '''' else ''none'')"
  "\<forall>f\<in>set fields. toggle_chain (Some ''course'') f = (if f \<in> rule_table ''course'' then '''' else ''none'')"
  "\<forall>f\<in>set fields. toggle_chain (Some ''experience'') f = (if f \<in> rule_table ''experience'' then '''' else ''none'')"
  "\<forall>f\<in>set fields. toggle_chain (Some ''rental'') f = (if f \<in> rule_table ''rental'' then '''' else ''none'')"
  by (simp_all add: fields_def toggle_chain_def rule_table_def)

lemma toggle_chain_table:
  assumes "mode \<in> recognized" and "f \<in> set fields"
  shows "toggle_chain (Some mode) f = (if f \<in> rule_table mode then '''' else ''none'')"
proof -
  from assms(1) consider "mode = ''lesson''" | "mode = ''course''" | "mode = ''experience''"
    | "mode = ''rental''"
    unfolding recognized_def by blast
  then show ?thesis using toggle_chain_modes assms(2) by cases blast+
qed

lemma rule_table_fields:
  assumes "mode \<in> recognized"
  shows "rule_table mode \<subseteq> set fields"
proof -
  have "rule_table ''lesson'' \<subseteq> set fields" "rule_table ''course'' \<subseteq> set fields"
    "rule_table ''experience'' \<subseteq> set fields" "rule_table ''rental'' \<subseteq> set fields"
    by (simp_all add: rule_table_def fields_def)
  with assms show ?thesis unfolding recognized_def by blast
qed

text \<open>The set of fields that a variant shows for a recognized mode is the set of the table.\<close>

lemma offer_switch_visible:
  assumes "mode \<in> recognized"
  shows "{f \<in> set fields. offer_switch (Some mode) f = ''''} = rule_table mode"
proof (intro set_eqI iffI)
  fix f
  assume "f \<in> {f \<in> set fields. offer_switch (Some mode) f = ''''}"
  then have f: "f \<in> set fields" and shown: "offer_switch (Some mode) f = ''''"
    by blast+
  show "f \<in> rule_table mode"
  proof (rule ccontr)
    assume "f \<notin> rule_table mode"
    with offer_switch_table [OF assms f] have "offer_switch (Some mode) f = ''none''"
      by (simp only: if_False)
    with shown show False by simp
  qed
next
  fix f
  assume in_table: "f \<in> rule_table mode"
  with rule_table_fields [OF assms] have f: "f \<in> set fields" by blast
  from offer_switch_table [OF assms f] in_table have "offer_switch (Some mode) f = ''''"
    by (simp only: if_True)
  with f show "f \<in> {f \<in> set fields. offer_switch (Some mode) f = ''''}" by blast
qed

lemma toggle_chain_visible:
  assumes "mode \<in> recognized"
  shows "{f \<in> set fields. toggle_chain (Some mode) f = ''''} = rule_table mode"
proof (intro set_eqI iffI)
  fix f
  assume "f \<in> {f \<in> set fields. toggle_chain (Some mode) f = ''''}"
  then have f: "f \<in> set fields" and shown: "toggle_chain (Some mode) f = ''''"
    by blast+
  show "f \<in> rule_table mode"
  proof (rule ccontr)
    assume "f \<notin> rule_table mode"
    with toggle_chain_table [OF assms f] have "toggle_chain (Some mode) f = ''none''"
      by (simp only: if_False)
    with shown show False by simp
  qed
next
  fix f
  assume in_table: "f \<in> rule_table mode"
  with rule_table_fields [OF assms] have f: "f \<in> set fields" by blast
  from toggle_chain_table [OF assms f] in_table have "toggle_chain (Some mode) f = ''''"
    by (simp only: if_True)
  with f show "f \<in> {f \<in> set fields. toggle_chain (Some mode) f = ''''}" by blast
qed

lemma offer_switch_default:
  assumes "\<And>v. val = Some v \<Longrightarrow> v \<notin> recognized"
  shows "offer_switch val f = ''''"
proof -
  have "val \<noteq> Some ''lesson''" "val \<noteq> Some ''course''" "val \<noteq> Some ''experience''"
    "val \<noteq> Some ''rental''"
    using assms unfolding recognized_def by blast+
  then show ?thesis unfolding offer_switch_def by (simp only: if_False)
qed

lemma toggle_chain_else:
  assumes "val \<noteq> Some ''lesson''" "val \<noteq> Some ''course''" "val \<noteq> Some ''experience''"
  shows "toggle_chain val f = ''none''"
  using assms unfolding toggle_chain_def by (simp only: if_False)



lemma upper_lower_disjoint:
  "c \<in> set ''abcdefghijklmnopqrstuvwxyz'' \<Longrightarrow> c \<notin> set ''ABCDEFGHIJKLMNOPQRSTUVWXYZ''"
  by auto

lemma lower_char_cases:
  "lower_char c = c \<or> lower_char c \<in> set ''abcdefghijklmnopqrstuvwxyz''"
proof (cases "map_of (zip ''ABCDEFGHIJKLMNOPQRSTUVWXYZ'' ''abcdefghijklmnopqrstuvwxyz'') c")
  case None
  have "lower_char c = c"
    unfolding lower_char_def None by (rule option.case(1))
  then show ?thesis ..
next
  case (Some l)
  have "l \<in> set ''abcdefghijklmnopqrstuvwxyz''"
    using Some by (meson map_of_SomeD set_zip_rightD)
  moreover have "lower_char c = l"
    unfolding lower_char_def Some by (rule option.case(2))
  ultimately show ?thesis by blast
qed

lemma lower_char_fixed:
  assumes "c \<in> set ''abcdefghijklmnopqrstuvwxyz''"
  shows "lower_char c = c"
proof -
  have "length ''ABCDEFGHIJKLMNOPQRSTUVWXYZ'' = length ''abcdefghijklmnopqrstuvwxyz''"
    by simp
  from map_of_zip_is_None [OF this, of c] upper_lower_disjoint [OF assms]
  have none: "map_of (zip ''ABCDEFGHIJKLMNOPQRSTUVWXYZ'' ''abcdefghijklmnopqrstuvwxyz'') c = None"
    by blast
  show ?thesis unfolding lower_char_def none by (rule option.case(1))
qed

lemma lower_char_idem: "lower_char (lower_char c) = lower_char c"
  using lower_char_cases [of c] lower_char_fixed [of "lower_char c"] by metis

lemma toLowerCase_idem: "toLowerCase (toLowerCase s) = toLowerCase s"
  by (simp add: toLowerCase_def lower_char_idem)

lemma toLowerCase_modes:
  "toLowerCase ''lesson'' = ''lesson''" "toLowerCase ''course'' = ''course''"
  "toLowerCase ''experience'' = ''experience''" "toLowerCase ''rental'' = ''rental''"
  by (simp_all add: toLowerCase_def lower_char_def)

lemma toLowerCase_recognized: "mode \<in> recognized \<Longrightarrow> toLowerCase mode = mode"
  unfolding recognized_def using toLowerCase_modes by blast

section \<open>Where the lookups land\<close>

lemma querySelectorAll_inside:
  "p \<in> set (querySelectorAll t (Some c) sel) \<Longrightarrow> prefix c p"
  by (auto simp: querySelectorAll_def split: option.splits)

lemma querySelector_inside:
  assumes "querySelector t (Some c) sel = Some p"
  shows "prefix c p"
proof -
  from assms have "p \<in> set (querySelectorAll t (Some c) sel)"
    by (auto simp: querySelector_def split: list.splits)
  then show ?thesis by (rule querySelectorAll_inside)
qed

lemma closest_above:
  assumes "closest t p sel = Some q"
  shows "prefix q p"
proof -
  from assms have "q \<in> set (rev (prefixes p))"
    unfolding closest_def by (auto dest: find_SomeD)
  then show ?thesis by simp
qed

text \<open>A row of a form is an element of the form or an ancestor of one.\<close>

lemma offer_field_row_anchor:
  assumes "offer_field_row t inline f = Some r"
  shows "\<exists>e. prefix inline e \<and> prefix r e"
proof (cases "querySelector t (Some inline) [[IdEnds f]]")
  case None
  with assms have "querySelector t (Some inline) [[Cls (''field-'' @ f)]] = Some r"
    by (simp add: offer_field_row_def)
  then have "prefix inline r" by (rule querySelector_inside)
  then show ?thesis by blast
next
  case (Some e)
  then have e: "prefix inline e" by (rule querySelector_inside)
  show ?thesis
  proof (cases "closest t e [[Cls ''form-row''], [Cls (''field-'' @ f)]]")
    case None
    with Some assms have "querySelector t (Some inline) [[Cls (''field-'' @ f)]] = Some r"
      by (simp add: offer_field_row_def)
    then have "prefix inline r" by (rule querySelector_inside)
    then show ?thesis by blast
  next
    case (Some q)
    with \<open>querySelector t (Some inline) [[IdEnds f]] = Some e\<close> assms have "q = r"
      by (simp add: offer_field_row_def)
    with Some have "prefix r e" by (auto dest: closest_above)
    with e show ?thesis by blast
  qed
qed

lemma toggle_field_row_anchor:
  assumes "toggle_field_row t inline f = Some r"
  shows "\<exists>e. prefix inline e \<and> prefix r e"
proof (cases "querySelector t (Some inline) [[IdEnds f]]")
  case None
  with assms show ?thesis by (simp add: toggle_field_row_def)
next
  case (Some e)
  then have "prefix inline e" by (rule querySelector_inside)
  moreover from Some assms have "prefix r e"
    by (auto simp: toggle_field_row_def dest: closest_above)
  ultimately show ?thesis by blast
qed

text \<open>
  Forms that do not contain one another: a row that lies in the one is not a row of the
  other.
\<close>

lemma separate_rows:
  assumes "\<not> prefix A B" and "\<not> prefix B A"
    and "prefix A r" and "prefix B e" and "prefix r e"
  shows False
proof -
  from assms(3,5) have "prefix A e" by (rule prefix_order.trans)
  with assms(4) have "prefix A B \<or> prefix B A" by (meson prefix_same_cases)
  with assms(1,2) show False by blast
qed

text \<open>
  \<open>querySelectorAll\<close> on an element returns descendants only: a form that is itself the
  scope of the initialisation is not among the discovered forms.
\<close>

lemma descendants_nonempty:
  "[] \<notin> set (descendants t)"
  "[] \<notin> set (descendants_from i ks)"
  by (induction t and i ks rule: descendants_descendants_from.induct) auto

lemma scope_root_not_discovered:
  "c \<notin> set (querySelectorAll t (Some c) sel)"
  using descendants_nonempty(1) by (auto simp: querySelectorAll_def split: option.splits)

section \<open>The initialisation\<close>

lemma init_offer_inline_simps [simp]:
  "root (init_offer_inline inline pg) = root pg"
  "el_value (init_offer_inline inline pg) = el_value pg"
  by (simp_all add: init_offer_inline_def toggleOfferFields_def toggleOfferFields_over_simps
      split: option.split)

lemma init_toggle_inline_simps [simp]:
  "root (init_toggle_inline inline pg) = root pg"
  "el_value (init_toggle_inline inline pg) = el_value pg"
  by (simp_all add: init_toggle_inline_def toggleFields_def toggleFields_over_simps
      split: option.split)

lemma fold_init_offer_simps [simp]:
  "root (fold init_offer_inline As pg) = root pg"
  "el_value (fold init_offer_inline As pg) = el_value pg"
  by (induction As arbitrary: pg) simp_all

lemma fold_init_toggle_simps [simp]:
  "root (fold init_toggle_inline As pg) = root pg"
  "el_value (fold init_toggle_inline As pg) = el_value pg"
  by (induction As arbitrary: pg) simp_all



lemma fold_init_offer_filter:
  "fold init_offer_inline As pg =
     fold init_offer_inline
       (filter (\<lambda>A. querySelector (root pg) (Some A) offer_type_select \<noteq> None) As) pg"
proof (induction As arbitrary: pg)
  case Nil
  show ?case by simp
next
  case (Cons A As)
  show ?case
  proof (cases "querySelector (root pg) (Some A) offer_type_select")
    case None
    then have "init_offer_inline A pg = pg" by (simp add: init_offer_inline_def)
    with None Cons [of pg] show ?thesis by simp
  next
    case (Some s)
    with Cons [of "init_offer_inline A pg"] show ?thesis by simp
  qed
qed

lemma fold_init_toggle_filter:
  "fold init_toggle_inline As pg =
     fold init_toggle_inline
       (filter (\<lambda>A. querySelector (root pg) (Some A) offer_type_select \<noteq> None) As) pg"
proof (induction As arbitrary: pg)
  case Nil
  show ?case by simp
next
  case (Cons A As)
  show ?case
  proof (cases "querySelector (root pg) (Some A) offer_type_select")
    case None
    then have "init_toggle_inline A pg = pg" by (simp add: init_toggle_inline_def)
    with None Cons [of pg] show ?thesis by simp
  next
    case (Some s)
    with Cons [of "init_toggle_inline A pg"] show ?thesis by simp
  qed
qed














section \<open>The example documents, evaluated\<close>

lemma admin_offer_rows:
  "map (offer_field_row admin_root [0, 0, 0]) fields =
     [Some [0, 0, 0, 1], Some [0, 0, 0, 2], Some [0, 0, 0, 3], Some [0, 0, 0, 4],
      Some [0, 0, 0, 5]]"
  by code_simp

lemma admin_toggle_rows:
  "map (toggle_field_row admin_root [0, 0, 0]) fields =
     [Some [0, 0, 0, 1], Some [0, 0, 0, 2], Some [0, 0, 0, 3], Some [0, 0, 0, 4],
      Some [0, 0, 0, 5]]"
  by code_simp

lemma admin_offer_row [simp]:
  "offer_field_row admin_root [0, 0, 0] ''hours'' = Some [0, 0, 0, 1]"
  "offer_field_row admin_root [0, 0, 0] ''classes'' = Some [0, 0, 0, 2]"
  "offer_field_row admin_root [0, 0, 0] ''students'' = Some [0, 0, 0, 3]"
  "offer_field_row admin_root [0, 0, 0] ''instructors'' = Some [0, 0, 0, 4]"
  "offer_field_row admin_root [0, 0, 0] ''level'' = Some [0, 0, 0, 5]"
  using admin_offer_rows by (simp_all add: fields_def)

lemma admin_toggle_row [simp]:
  "toggle_field_row admin_root [0, 0, 0] ''hours'' = Some [0, 0, 0, 1]"
  "toggle_field_row admin_root [0, 0, 0] ''classes'' = Some [0, 0, 0, 2]"
  "toggle_field_row admin_root [0, 0, 0] ''students'' = Some [0, 0, 0, 3]"
  "toggle_field_row admin_root [0, 0, 0] ''instructors'' = Some [0, 0, 0, 4]"
  "toggle_field_row admin_root [0, 0, 0] ''level'' = Some [0, 0, 0, 5]"
  using admin_toggle_rows by (simp_all add: fields_def)

lemma admin_rows_second:
  "map (offer_field_row admin_root [0, 0, 1]) fields =
     [Some [0, 0, 1, 1], Some [0, 0, 1, 2], Some [0, 0, 1, 3], Some [0, 0, 1, 4],
      Some [0, 0, 1, 5]]"
  "map (toggle_field_row admin_root [0, 0, 1]) fields =
     [Some [0, 0, 1, 1], Some [0, 0, 1, 2], Some [0, 0, 1, 3], Some [0, 0, 1, 4],
      Some [0, 0, 1, 5]]"
  by code_simp+

lemma admin_row_second [simp]:
  "offer_field_row admin_root [0, 0, 1] ''hours'' = Some [0, 0, 1, 1]"
  "offer_field_row admin_root [0, 0, 1] ''classes'' = Some [0, 0, 1, 2]"
  "offer_field_row admin_root [0, 0, 1] ''students'' = Some [0, 0, 1, 3]"
  "offer_field_row admin_root [0, 0, 1] ''instructors'' = Some [0, 0, 1, 4]"
  "offer_field_row admin_root [0, 0, 1] ''level'' = Some [0, 0, 1, 5]"
  "toggle_field_row admin_root [0, 0, 1] ''hours'' = Some [0, 0, 1, 1]"
  "toggle_field_row admin_root [0, 0, 1] ''classes'' = Some [0, 0, 1, 2]"
  "toggle_field_row admin_root [0, 0, 1] ''students'' = Some [0, 0, 1, 3]"
  "toggle_field_row admin_root [0, 0, 1] ''instructors'' = Some [0, 0, 1, 4]"
  "toggle_field_row admin_root [0, 0, 1] ''level'' = Some [0, 0, 1, 5]"
  using admin_rows_second by (simp_all add: fields_def del: One_nat_def)

lemma admin_rows_group:
  "map (offer_field_row admin_root [0, 0]) fields =
     [Some [0, 0, 0, 1], Some [0, 0, 0, 2], Some [0, 0, 0, 3], Some [0, 0, 0, 4],
      Some [0, 0, 0, 5]]"
  by code_simp

lemma admin_row_group [simp]:
  "offer_field_row admin_root [0, 0] ''hours'' = Some [0, 0, 0, 1]"
  "offer_field_row admin_root [0, 0] ''classes'' = Some [0, 0, 0, 2]"
  "offer_field_row admin_root [0, 0] ''students'' = Some [0, 0, 0, 3]"
  "offer_field_row admin_root [0, 0] ''instructors'' = Some [0, 0, 0, 4]"
  "offer_field_row admin_root [0, 0] ''level'' = Some [0, 0, 0, 5]"
  using admin_rows_group by (simp_all add: fields_def)

lemma admin_page_simps [simp]:
  "root (admin_page v0 v1) = admin_root"
  "display (admin_page v0 v1) p = ''''"
  "el_value (admin_page v0 v1) [0, 0, 0, 0, 0] = Some v0"
  "el_value (admin_page v0 v1) [0, 0, 1, 0, 0] = Some v1"
  "listeners (admin_page v0 v1) = []"
  by (simp_all add: admin_page_def)



lemma admin_rows_agree:
  "rows_agree (offer_field_row admin_root [0, 0, 0]) ''lesson''"
  "rows_agree (toggle_field_row admin_root [0, 0, 0]) ''lesson''"
  by (simp_all add: rows_agree_def fields_def)

lemma admin_rows_inside:
  "rows_inside [0, 0, 0] (offer_field_row admin_root [0, 0, 0])"
  "rows_inside [0, 0, 0] (toggle_field_row admin_root [0, 0, 0])"
  by (simp_all add: rows_inside_def fields_def)




lemma nested_found:
  "querySelectorAll nested_root None offer_inlines = [[0, 0], [0, 0, 2]]"
  "querySelectorAll nested_root None toggle_inlines = [[0, 0], [0, 0, 2]]"
  "querySelector nested_root (Some [0, 0]) offer_type_select = Some [0, 0, 0, 0]"
  "querySelector nested_root (Some [0, 0, 2]) offer_type_select = Some [0, 0, 2, 0, 0]"
  by code_simp+

lemma nested_rows:
  "map (offer_field_row nested_root [0, 0]) fields =
     [Some [0, 0, 1], Some [0, 0, 2, 2], Some [0, 0, 2, 3], Some [0, 0, 2, 4],
      Some [0, 0, 2, 5]]"
  "map (toggle_field_row nested_root [0, 0]) fields =
     [Some [0, 0, 1], Some [0, 0, 2, 2], Some [0, 0, 2, 3], Some [0, 0, 2, 4],
      Some [0, 0, 2, 5]]"
  "map (offer_field_row nested_root [0, 0, 2]) fields =
     [Some [0, 0, 2, 1], Some [0, 0, 2, 2], Some [0, 0, 2, 3], Some [0, 0, 2, 4],
      Some [0, 0, 2, 5]]"
  "map (toggle_field_row nested_root [0, 0, 2]) fields =
     [Some [0, 0, 2, 1], Some [0, 0, 2, 2], Some [0, 0, 2, 3], Some [0, 0, 2, 4],
      Some [0, 0, 2, 5]]"
  by code_simp+

lemma nested_row [simp]:
  "offer_field_row nested_root [0, 0] ''hours'' = Some [0, 0, 1]"
  "offer_field_row nested_root [0, 0] ''classes'' = Some [0, 0, 2, 2]"
  "offer_field_row nested_root [0, 0] ''students'' = Some [0, 0, 2, 3]"
  "offer_field_row nested_root [0, 0] ''instructors'' = Some [0, 0, 2, 4]"
  "offer_field_row nested_root [0, 0] ''level'' = Some [0, 0, 2, 5]"
  "toggle_field_row nested_root [0, 0] ''hours'' = Some [0, 0, 1]"
  "toggle_field_row nested_root [0, 0] ''classes'' = Some [0, 0, 2, 2]"
  "toggle_field_row nested_root [0, 0] ''students'' = Some [0, 0, 2, 3]"
  "toggle_field_row nested_root [0, 0] ''instructors'' = Some [0, 0, 2, 4]"
  "toggle_field_row nested_root [0, 0] ''level'' = Some [0, 0, 2, 5]"
  "offer_field_row nested_root [0, 0, 2] ''classes'' = Some [0, 0, 2, 2]"
  "toggle_field_row nested_root [0, 0, 2] ''classes'' = Some [0, 0, 2, 2]"
  "offer_field_row nested_root [0, 0, 2] ''hours'' = Some [0, 0, 2, 1]"
  "offer_field_row nested_root [0, 0, 2] ''students'' = Some [0, 0, 2, 3]"
  "offer_field_row nested_root [0, 0, 2] ''instructors'' = Some [0, 0, 2, 4]"
  "offer_field_row nested_root [0, 0, 2] ''level'' = Some [0, 0, 2, 5]"
  "toggle_field_row nested_root [0, 0, 2] ''hours'' = Some [0, 0, 2, 1]"
  "toggle_field_row nested_root [0, 0, 2] ''students'' = Some [0, 0, 2, 3]"
  "toggle_field_row nested_root [0, 0, 2] ''instructors'' = Some [0, 0, 2, 4]"
  "toggle_field_row nested_root [0, 0, 2] ''level'' = Some [0, 0, 2, 5]"
  using nested_rows by (simp_all add: fields_def del: One_nat_def)

lemma nested_page_simps [simp]:
  "root (nested_page v0 v1) = nested_root"
  "display (nested_page v0 v1) p = ''''"
  "el_value (nested_page v0 v1) [0, 0, 0, 0] = Some v0"
  "el_value (nested_page v0 v1) [0, 0, 2, 0, 0] = Some v1"
  "listeners (nested_page v0 v1) = []"
  by (simp_all add: nested_page_def)

lemma short_rows:
  "map (offer_field_row short_root [0, 0]) fields =
     [Some [0, 0, 1], None, Some [0, 0, 2], Some [0, 0, 3], None]"
  "map (toggle_field_row short_root [0, 0]) fields =
     [Some [0, 0, 1], None, Some [0, 0, 2], Some [0, 0, 3], None]"
  by code_simp+

lemma short_row [simp]:
  "offer_field_row short_root [0, 0] ''classes'' = None"
  "toggle_field_row short_root [0, 0] ''classes'' = None"
  "offer_field_row short_root [0, 0] ''hours'' = Some [0, 0, 1]"
  "toggle_field_row short_root [0, 0] ''hours'' = Some [0, 0, 1]"
  using short_rows by (simp_all add: fields_def)

lemma short_row_more [simp]:
  "offer_field_row short_root [0, 0] ''students'' = Some [0, 0, 2]"
  "offer_field_row short_root [0, 0] ''instructors'' = Some [0, 0, 3]"
  "offer_field_row short_root [0, 0] ''level'' = None"
  "toggle_field_row short_root [0, 0] ''students'' = Some [0, 0, 2]"
  "toggle_field_row short_root [0, 0] ''instructors'' = Some [0, 0, 3]"
  "toggle_field_row short_root [0, 0] ''level'' = None"
  using short_rows by (simp_all add: fields_def)

lemma short_page_simps [simp]:
  "root (short_page v0) = short_root"
  "display (short_page v0) p = ''''"
  "el_value (short_page v0) [0, 0, 0, 0] = Some v0"
  "listeners (short_page v0) = []"
  by (simp_all add: short_page_def)


lemma short_rows_notes:
  "map (offer_field_row short_root [0, 1]) fields = [Some [0, 1, 0], None, None, None, None]"
  "map (toggle_field_row short_root [0, 1]) fields = [Some [0, 1, 0], None, None, None, None]"
  by code_simp+

lemma short_row_notes [simp]:
  "offer_field_row short_root [0, 1] ''hours'' = Some [0, 1, 0]"
  "toggle_field_row short_root [0, 1] ''hours'' = Some [0, 1, 0]"
  using short_rows_notes by (simp_all add: fields_def del: One_nat_def)


lemma paired_found:
  "querySelector paired_root (Some [0, 0]) offer_type_select = Some [0, 0, 0, 0]"
  "querySelector paired_root (Some [0, 1]) offer_type_select = Some [0, 1, 0, 0]"
  by code_simp+

lemma paired_rows:
  "map (toggle_field_row paired_root [0, 0]) fields =
     [Some [0, 0, 1], Some [0, 0, 1], None, None, None]"
  "map (offer_field_row paired_root [0, 1]) fields =
     [Some [0, 1, 1], Some [0, 1, 1], None, None, None]"
  by code_simp+

lemma paired_row [simp]:
  "toggle_field_row paired_root [0, 0] ''hours'' = Some [0, 0, 1]"
  "toggle_field_row paired_root [0, 0] ''classes'' = Some [0, 0, 1]"
  "toggle_field_row paired_root [0, 0] ''students'' = None"
  "toggle_field_row paired_root [0, 0] ''instructors'' = None"
  "toggle_field_row paired_root [0, 0] ''level'' = None"
  "offer_field_row paired_root [0, 1] ''hours'' = Some [0, 1, 1]"
  "offer_field_row paired_root [0, 1] ''classes'' = Some [0, 1, 1]"
  "offer_field_row paired_root [0, 1] ''students'' = None"
  "offer_field_row paired_root [0, 1] ''instructors'' = None"
  "offer_field_row paired_root [0, 1] ''level'' = None"
  using paired_rows by (simp_all add: fields_def del: One_nat_def)

lemma paired_page_simps [simp]:
  "root (paired_page v) = paired_root"
  "display (paired_page v) p = ''''"
  "el_value (paired_page v) [0, 0, 0, 0] = Some v"
  "el_value (paired_page v) [0, 1, 0, 0] = Some v"
  "listeners (paired_page v) = []"
  by (simp_all add: paired_page_def)


lemma mixed_rows:
  "map (offer_field_row mixed_root [0, 0]) fields =
     [Some [0, 0, 0, 0], Some [0, 0, 1, 2], Some [0, 0, 1, 3], Some [0, 0, 1, 4],
      Some [0, 0, 1, 5]]"
  "map (offer_field_row mixed_root [0, 0, 0]) fields =
     [Some [0, 0, 0, 0], None, None, None, None]"
  "map (offer_field_row mixed_root [0, 0, 1]) fields =
     [Some [0, 0, 1, 1], Some [0, 0, 1, 2], Some [0, 0, 1, 3], Some [0, 0, 1, 4],
      Some [0, 0, 1, 5]]"
  by code_simp+

lemma mixed_row [simp]:
  "offer_field_row mixed_root [0, 0] ''hours'' = Some [0, 0, 0, 0]"
  "offer_field_row mixed_root [0, 0] ''classes'' = Some [0, 0, 1, 2]"
  "offer_field_row mixed_root [0, 0] ''students'' = Some [0, 0, 1, 3]"
  "offer_field_row mixed_root [0, 0] ''instructors'' = Some [0, 0, 1, 4]"
  "offer_field_row mixed_root [0, 0] ''level'' = Some [0, 0, 1, 5]"
  "offer_field_row mixed_root [0, 0, 0] ''hours'' = Some [0, 0, 0, 0]"
  "offer_field_row mixed_root [0, 0, 1] ''hours'' = Some [0, 0, 1, 1]"
  "offer_field_row mixed_root [0, 0, 1] ''classes'' = Some [0, 0, 1, 2]"
  "offer_field_row mixed_root [0, 0, 1] ''students'' = Some [0, 0, 1, 3]"
  "offer_field_row mixed_root [0, 0, 1] ''instructors'' = Some [0, 0, 1, 4]"
  "offer_field_row mixed_root [0, 0, 1] ''level'' = Some [0, 0, 1, 5]"
  using mixed_rows by (simp_all add: fields_def del: One_nat_def)

lemma mixed_page_simps [simp]:
  "root (mixed_page v) = mixed_root"
  "display (mixed_page v) p = ''''"
  "el_value (mixed_page v) [0, 0, 1, 0, 0] = Some v"
  "listeners (mixed_page v) = []"
  by (simp_all add: mixed_page_def)

lemma header_root_found:
  "querySelector header_root None [[Cls ''mobile-drawer'']] = None"
  "querySelector header_root None [[Cls ''mobile-drawer__overlay'']] = Some [0, 1]"
  "querySelector header_root None [[Cls ''mobile-drawer__close'']] = Some [0, 2]"
  by code_simp+

section \<open>The claims\<close>

text \<open>
  C1, as the code has it. For each of the four recognized modes, the fields that either
  variant shows are exactly those of the rule table (lesson: hours, students, instructors;
  course: classes, level; experience: level; rental: none). When no row of the form is
  shared by a field that the table shows for the mode and a field that it hides
  (\<open>rows_agree\<close>), the evaluation leaves the row of every located field shown when the
  table lists the field and hidden otherwise, and the result is the same for every order
  in which the five fields are processed.
\<close>

theorem recognized_modes_follow_rule_table:
  assumes "mode \<in> recognized" and "el_value pg select = Some mode"
    and "set fs = set fields"
  shows "{f \<in> set fields. offer_switch (Some mode) f = ''''} = rule_table mode \<and>
         {f \<in> set fields. toggle_chain (Some mode) f = ''''} = rule_table mode \<and>
         (rows_agree (offer_field_row (root pg) inline) mode \<longrightarrow>
            toggleOfferFields_over fs inline select pg = toggleOfferFields inline select pg \<and>
            (\<forall>f\<in>set fields. \<forall>r. offer_field_row (root pg) inline f = Some r \<longrightarrow>
               display (toggleOfferFields inline select pg) r =
                 (if f \<in> rule_table mode then '''' else ''none''))) \<and>
         (rows_agree (toggle_field_row (root pg) inline) mode \<longrightarrow>
            toggleFields_over fs inline select pg = toggleFields inline select pg \<and>
            (\<forall>f\<in>set fields. \<forall>r. toggle_field_row (root pg) inline f = Some r \<longrightarrow>
               display (toggleFields inline select pg) r =
                 (if f \<in> rule_table mode then '''' else ''none'')))"
proof (intro conjI impI ballI allI)
  show "{f \<in> set fields. offer_switch (Some mode) f = ''''} = rule_table mode"
    using assms(1) by (rule offer_switch_visible)
  show "{f \<in> set fields. toggle_chain (Some mode) f = ''''} = rule_table mode"
    using assms(1) by (rule toggle_chain_visible)
next
  assume agree: "rows_agree (offer_field_row (root pg) inline) mode"
  have val: "map_option toLowerCase (el_value pg select) = Some mode"
    using assms(1,2) by (simp add: toLowerCase_recognized)
  have same: "offer_switch (Some mode) f = offer_switch (Some mode) g"
    if "f \<in> set fields" "g \<in> set fields" "offer_field_row (root pg) inline f = Some r"
      "offer_field_row (root pg) inline g = Some r" for f g r
    using rows_agreeD [OF agree that] offer_switch_table [OF assms(1) that(1)]
      offer_switch_table [OF assms(1) that(2)]
    by simp
  have "apply_rows (offer_field_row (root pg) inline) (offer_switch (Some mode)) fs (display pg) =
        apply_rows (offer_field_row (root pg) inline) (offer_switch (Some mode)) fields (display pg)"
  proof (rule apply_rows_order)
    show "set fs = set fields" by (rule assms(3))
    fix f g r
    assume "f \<in> set fs" "g \<in> set fs" "offer_field_row (root pg) inline f = Some r"
      "offer_field_row (root pg) inline g = Some r"
    then show "offer_switch (Some mode) f = offer_switch (Some mode) g"
      using same assms(3) by blast
  qed
  then show "toggleOfferFields_over fs inline select pg = toggleOfferFields inline select pg"
    by (simp add: toggleOfferFields_def toggleOfferFields_over_def val)
  fix f r
  assume f: "f \<in> set fields" "offer_field_row (root pg) inline f = Some r"
  have "display (toggleOfferFields inline select pg) r = offer_switch (Some mode) f"
    unfolding toggleOfferFields_def toggleOfferFields_over_simps val
  proof (rule apply_rows_written [where row = "offer_field_row (root pg) inline" and f = f, OF f])
    fix g
    assume "g \<in> set fields" "offer_field_row (root pg) inline g = Some r"
    then show "offer_switch (Some mode) g = offer_switch (Some mode) f"
      using same f by blast
  qed
  then show "display (toggleOfferFields inline select pg) r =
      (if f \<in> rule_table mode then '''' else ''none'')"
    using offer_switch_table [OF assms(1) f(1)] by simp
next
  assume agree: "rows_agree (toggle_field_row (root pg) inline) mode"
  have same: "toggle_chain (Some mode) f = toggle_chain (Some mode) g"
    if "f \<in> set fields" "g \<in> set fields" "toggle_field_row (root pg) inline f = Some r"
      "toggle_field_row (root pg) inline g = Some r" for f g r
    using rows_agreeD [OF agree that] toggle_chain_table [OF assms(1) that(1)]
      toggle_chain_table [OF assms(1) that(2)]
    by simp
  have "apply_rows (toggle_field_row (root pg) inline) (toggle_chain (Some mode)) fs (display pg) =
        apply_rows (toggle_field_row (root pg) inline) (toggle_chain (Some mode)) fields (display pg)"
  proof (rule apply_rows_order)
    show "set fs = set fields" by (rule assms(3))
    fix f g r
    assume "f \<in> set fs" "g \<in> set fs" "toggle_field_row (root pg) inline f = Some r"
      "toggle_field_row (root pg) inline g = Some r"
    then show "toggle_chain (Some mode) f = toggle_chain (Some mode) g"
      using same assms(3) by blast
  qed
  then show "toggleFields_over fs inline select pg = toggleFields inline select pg"
    by (simp add: toggleFields_def toggleFields_over_def assms(2))
  fix f r
  assume f: "f \<in> set fields" "toggle_field_row (root pg) inline f = Some r"
  have "display (toggleFields inline select pg) r = toggle_chain (Some mode) f"
    unfolding toggleFields_def toggleFields_over_simps assms(2)
  proof (rule apply_rows_written [where row = "toggle_field_row (root pg) inline" and f = f, OF f])
    fix g
    assume "g \<in> set fields" "toggle_field_row (root pg) inline g = Some r"
    then show "toggle_chain (Some mode) g = toggle_chain (Some mode) f"
      using same f by blast
  qed
  then show "display (toggleFields inline select pg) r =
      (if f \<in> rule_table mode then '''' else ''none'')"
    using toggle_chain_table [OF assms(1) f(1)] by simp
qed

theorem recognized_modes_follow_rule_table_witness:
  "''lesson'' \<in> recognized \<and>
   {f \<in> set fields. offer_switch (Some ''lesson'') f = ''''} =
     {''hours'', ''students'', ''instructors''} \<and>
   {f \<in> set fields. toggle_chain (Some ''lesson'') f = ''''} =
     {''hours'', ''students'', ''instructors''} \<and>
   rows_agree (offer_field_row admin_root [0, 0, 0]) ''lesson'' \<and>
   rows_agree (toggle_field_row admin_root [0, 0, 0]) ''lesson'' \<and>
   toggleOfferFields_over (rev fields) [0, 0, 0] [0, 0, 0, 0, 0] (admin_page ''lesson'' ''course'') =
     toggleOfferFields [0, 0, 0] [0, 0, 0, 0, 0] (admin_page ''lesson'' ''course'') \<and>
   display (toggleOfferFields [0, 0, 0] [0, 0, 0, 0, 0] (admin_page ''lesson'' ''course''))
     [0, 0, 0, 1] = '''' \<and>
   display (toggleOfferFields [0, 0, 0] [0, 0, 0, 0, 0] (admin_page ''lesson'' ''course''))
     [0, 0, 0, 2] = ''none'' \<and>
   toggleFields_over (rev fields) [0, 0, 0] [0, 0, 0, 0, 0] (admin_page ''lesson'' ''course'') =
     toggleFields [0, 0, 0] [0, 0, 0, 0, 0] (admin_page ''lesson'' ''course'') \<and>
   display (toggleFields [0, 0, 0] [0, 0, 0, 0, 0] (admin_page ''lesson'' ''course''))
     [0, 0, 0, 1] = '''' \<and>
   display (toggleFields [0, 0, 0] [0, 0, 0, 0, 0] (admin_page ''lesson'' ''course''))
     [0, 0, 0, 2] = ''none''"
proof -
  have mode: "''lesson'' \<in> recognized"
    by (simp add: recognized_def)
  have val: "el_value (admin_page ''lesson'' ''course'') [0, 0, 0, 0, 0] = Some ''lesson''"
    by simp
  have order: "set (rev fields) = set fields"
    by simp
  have hours: "''hours'' \<in> set fields" "''hours'' \<in> rule_table ''lesson''"
    and classes: "''classes'' \<in> set fields" "''classes'' \<notin> rule_table ''lesson''"
    by (simp_all add: fields_def rule_table_def)
  have table: "rule_table ''lesson'' = {''hours'', ''students'', ''instructors''}"
    by (simp add: rule_table_def)
  note table_rule = recognized_modes_follow_rule_table [OF mode val order, of "[0, 0, 0]"]
  have sets: "{f \<in> set fields. offer_switch (Some ''lesson'') f = ''''} =
      {''hours'', ''students'', ''instructors''}"
    "{f \<in> set fields. toggle_chain (Some ''lesson'') f = ''''} =
      {''hours'', ''students'', ''instructors''}"
    using table_rule unfolding table by blast+
  have agree: "rows_agree (offer_field_row (root (admin_page ''lesson'' ''course'')) [0, 0, 0])
      ''lesson''"
    "rows_agree (toggle_field_row (root (admin_page ''lesson'' ''course'')) [0, 0, 0])
      ''lesson''"
    using admin_rows_agree by simp_all
  have first: "toggleOfferFields_over (rev fields) [0, 0, 0] [0, 0, 0, 0, 0]
        (admin_page ''lesson'' ''course'') =
      toggleOfferFields [0, 0, 0] [0, 0, 0, 0, 0] (admin_page ''lesson'' ''course'')"
    "\<forall>f\<in>set fields. \<forall>r. offer_field_row (root (admin_page ''lesson'' ''course'')) [0, 0, 0] f
        = Some r \<longrightarrow>
      display (toggleOfferFields [0, 0, 0] [0, 0, 0, 0, 0] (admin_page ''lesson'' ''course'')) r =
        (if f \<in> rule_table ''lesson'' then '''' else ''none'')"
    using table_rule agree(1) by blast+
  have second: "toggleFields_over (rev fields) [0, 0, 0] [0, 0, 0, 0, 0]
        (admin_page ''lesson'' ''course'') =
      toggleFields [0, 0, 0] [0, 0, 0, 0, 0] (admin_page ''lesson'' ''course'')"
    "\<forall>f\<in>set fields. \<forall>r. toggle_field_row (root (admin_page ''lesson'' ''course'')) [0, 0, 0] f
        = Some r \<longrightarrow>
      display (toggleFields [0, 0, 0] [0, 0, 0, 0, 0] (admin_page ''lesson'' ''course'')) r =
        (if f \<in> rule_table ''lesson'' then '''' else ''none'')"
    using table_rule agree(2) by blast+
  from first(2) hours classes
  have "display (toggleOfferFields [0, 0, 0] [0, 0, 0, 0, 0] (admin_page ''lesson'' ''course''))
      [0, 0, 0, 1] = ''''"
    "display (toggleOfferFields [0, 0, 0] [0, 0, 0, 0, 0] (admin_page ''lesson'' ''course''))
      [0, 0, 0, 2] = ''none''"
    by (force simp del: One_nat_def)+
  moreover from second(2) hours classes
  have "display (toggleFields [0, 0, 0] [0, 0, 0, 0, 0] (admin_page ''lesson'' ''course''))
      [0, 0, 0, 1] = ''''"
    "display (toggleFields [0, 0, 0] [0, 0, 0, 0, 0] (admin_page ''lesson'' ''course''))
      [0, 0, 0, 2] = ''none''"
    by (force simp del: One_nat_def)+
  ultimately show ?thesis
    using mode sets admin_rows_agree first(1) second(1) by (simp only: simp_thms)
qed

text \<open>
  C1 as stated fails where two fields share a row. On the paired page the first form has
  hours and classes on one line, and the second variant resolves both to the line's
  \<open>form-row\<close>: with lesson selected the row ends hidden, although the table shows hours,
  and it ends shown when the fields are processed in the reverse order. The first
  variant does the same on the second form, whose inputs stand in the \<open>form-row\<close> itself.
\<close>

theorem shared_row_counterexample:
  "''lesson'' \<in> recognized \<and> ''hours'' \<in> rule_table ''lesson'' \<and>
   querySelector paired_root (Some [0, 0]) offer_type_select = Some [0, 0, 0, 0] \<and>
   toggle_field_row paired_root [0, 0] ''hours'' = Some [0, 0, 1] \<and>
   display (toggleFields [0, 0] [0, 0, 0, 0] (paired_page ''lesson'')) [0, 0, 1] = ''none'' \<and>
   display (toggleFields_over (rev fields) [0, 0] [0, 0, 0, 0] (paired_page ''lesson''))
     [0, 0, 1] = '''' \<and>
   querySelector paired_root (Some [0, 1]) offer_type_select = Some [0, 1, 0, 0] \<and>
   offer_field_row paired_root [0, 1] ''hours'' = Some [0, 1, 1] \<and>
   display (toggleOfferFields [0, 1] [0, 1, 0, 0] (paired_page ''lesson'')) [0, 1, 1] = ''none'' \<and>
   display (toggleOfferFields_over (rev fields) [0, 1] [0, 1, 0, 0] (paired_page ''lesson''))
     [0, 1, 1] = ''''"
proof -
  have low: "toLowerCase ''lesson'' = ''lesson''"
    by (rule toLowerCase_modes)
  show ?thesis
    by (simp add: recognized_def rule_table_def paired_found toggleFields_def
        toggleFields_over_simps toggleOfferFields_def toggleOfferFields_over_simps
        apply_rows_at fields_def toggle_chain_def offer_switch_def low del: One_nat_def)
qed

text \<open>
  C2, as the code has it. In the first variant (\<open>toggleOfferFields\<close>), for every selector
  value whose lower-cased form is none of the four recognized modes (the empty string and
  a missing value included), the evaluation shows the row of every located field.
\<close>

theorem unrecognized_modes_show_all_in_first_variant:
  assumes "\<forall>v. el_value pg select = Some v \<longrightarrow> toLowerCase v \<notin> recognized"
  shows "\<forall>f\<in>set fields. \<forall>r. offer_field_row (root pg) inline f = Some r \<longrightarrow>
           display (toggleOfferFields inline select pg) r = ''''"
proof (intro ballI allI impI)
  fix f r
  assume f: "f \<in> set fields" "offer_field_row (root pg) inline f = Some r"
  have shown: "offer_switch (map_option toLowerCase (el_value pg select)) g = ''''" for g
    using assms by (intro offer_switch_default) auto
  have "display (toggleOfferFields inline select pg) r =
          offer_switch (map_option toLowerCase (el_value pg select)) f"
    unfolding toggleOfferFields_def toggleOfferFields_over_simps
    using f by (intro apply_rows_written) (simp_all only: shown)
  then show "display (toggleOfferFields inline select pg) r = ''''"
    by (simp only: shown)
qed

theorem unrecognized_modes_show_all_in_first_variant_witness:
  "toLowerCase '''' \<notin> recognized \<and>
   offer_field_row admin_root [0, 0, 0] ''classes'' = Some [0, 0, 0, 2] \<and>
   display (toggleOfferFields [0, 0, 0] [0, 0, 0, 0, 0] (admin_page '''' ''course''))
     [0, 0, 0, 2] = ''''"
proof -
  have low: "toLowerCase '''' \<notin> recognized"
    by (simp add: toLowerCase_def recognized_def)
  then have "\<forall>v. el_value (admin_page '''' ''course'') [0, 0, 0, 0, 0] = Some v
      \<longrightarrow> toLowerCase v \<notin> recognized"
    by simp
  from unrecognized_modes_show_all_in_first_variant [OF this, of "[0, 0, 0]"] low
  show ?thesis
    by (simp add: fields_def)
qed

text \<open>
  C2 as stated fails in the second variant: with the empty string selected,
  \<open>toggleFields\<close> hides the hours row of the first form of the admin page.
\<close>

theorem unrecognized_mode_hidden_counterexample:
  "'''' \<notin> recognized \<and>
   toggle_field_row admin_root [0, 0, 0] ''hours'' = Some [0, 0, 0, 1] \<and>
   display (toggleFields [0, 0, 0] [0, 0, 0, 0, 0] (admin_page '''' ''course''))
     [0, 0, 0, 1] = ''none''"
  by (simp add: recognized_def toggleFields_def toggleFields_over_simps apply_rows_at
      fields_def toggle_chain_def)




text \<open>
  C4, as the code has it. Take two forms of which neither lies in the other, and let every
  row that the first one resolves lie in its own container. Then changing the mode
  selector of the first form and running its evaluation again leaves the display of every
  field row of the second form as it was. Both variants.
\<close>

theorem separate_forms_are_isolated:
  assumes "\<not> prefix A B" and "\<not> prefix B A"
  shows "(rows_inside A (offer_field_row (root pg) A) \<longrightarrow>
            (\<forall>g\<in>set fields. \<forall>r. offer_field_row (root pg) B g = Some r \<longrightarrow>
               display (toggleOfferFields A sA (pg\<lparr>el_value := (el_value pg)(sA := v)\<rparr>)) r =
                 display pg r)) \<and>
         (rows_inside A (toggle_field_row (root pg) A) \<longrightarrow>
            (\<forall>g\<in>set fields. \<forall>r. toggle_field_row (root pg) B g = Some r \<longrightarrow>
               display (toggleFields A sA (pg\<lparr>el_value := (el_value pg)(sA := v)\<rparr>)) r =
                 display pg r))"
proof (intro conjI impI ballI allI)
  fix g r
  assume inside: "rows_inside A (offer_field_row (root pg) A)"
    and row: "offer_field_row (root pg) B g = Some r"
  from row obtain e where e: "prefix B e" "prefix r e"
    using offer_field_row_anchor by blast
  have "offer_field_row (root pg) A f \<noteq> Some r" if "f \<in> set fields" for f
  proof
    assume "offer_field_row (root pg) A f = Some r"
    with inside that have "prefix A r" by (rule rows_insideD)
    with assms e show False by (meson separate_rows)
  qed
  then show "display (toggleOfferFields A sA (pg\<lparr>el_value := (el_value pg)(sA := v)\<rparr>)) r =
      display pg r"
    by (simp add: toggleOfferFields_def toggleOfferFields_over_simps apply_rows_frame)
next
  fix g r
  assume inside: "rows_inside A (toggle_field_row (root pg) A)"
    and row: "toggle_field_row (root pg) B g = Some r"
  from row obtain e where e: "prefix B e" "prefix r e"
    using toggle_field_row_anchor by blast
  have "toggle_field_row (root pg) A f \<noteq> Some r" if "f \<in> set fields" for f
  proof
    assume "toggle_field_row (root pg) A f = Some r"
    with inside that have "prefix A r" by (rule rows_insideD)
    with assms e show False by (meson separate_rows)
  qed
  then show "display (toggleFields A sA (pg\<lparr>el_value := (el_value pg)(sA := v)\<rparr>)) r =
      display pg r"
    by (simp add: toggleFields_def toggleFields_over_simps apply_rows_frame)
qed

theorem separate_forms_are_isolated_witness:
  "\<not> prefix [0, 0, 0] [0, 0, 1 :: nat] \<and> \<not> prefix [0, 0, 1] [0, 0, 0 :: nat] \<and>
   rows_inside [0, 0, 0] (offer_field_row admin_root [0, 0, 0]) \<and>
   rows_inside [0, 0, 0] (toggle_field_row admin_root [0, 0, 0]) \<and>
   offer_field_row admin_root [0, 0, 1] ''classes'' = Some [0, 0, 1, 2] \<and>
   toggle_field_row admin_root [0, 0, 1] ''classes'' = Some [0, 0, 1, 2] \<and>
   display (toggleOfferFields [0, 0, 0] [0, 0, 0, 0, 0]
     (admin_page ''course'' ''course''\<lparr>el_value :=
        (el_value (admin_page ''course'' ''course''))([0, 0, 0, 0, 0] := Some ''lesson'')\<rparr>))
     [0, 0, 1, 2] = '''' \<and>
   display (toggleFields [0, 0, 0] [0, 0, 0, 0, 0]
     (admin_page ''course'' ''course''\<lparr>el_value :=
        (el_value (admin_page ''course'' ''course''))([0, 0, 0, 0, 0] := Some ''lesson'')\<rparr>))
     [0, 0, 1, 2] = ''''"
proof -
  have apartness: "\<not> prefix [0, 0, 0] [0, 0, 1 :: nat]" "\<not> prefix [0, 0, 1] [0, 0, 0 :: nat]"
    by simp_all
  have classes: "''classes'' \<in> set fields"
    by (simp add: fields_def)
  from separate_forms_are_isolated [OF apartness, of "admin_page ''course'' ''course''"
      "[0, 0, 0, 0, 0]" "Some ''lesson''"] admin_rows_inside classes apartness
  show ?thesis
    by (simp del: One_nat_def)
qed

text \<open>
  C4 as stated fails for a form nested in another: the outer form of the nested page has
  no classes row of its own, so its lookup resolves the classes row of the inner form.
  With course selected in the inner form, selecting lesson in the outer form and running
  the outer evaluation hides that row. Both variants.
\<close>

theorem nested_forms_counterexample:
  "querySelectorAll nested_root None toggle_inlines = [[0, 0], [0, 0, 2]] \<and>
   querySelectorAll nested_root None offer_inlines = [[0, 0], [0, 0, 2]] \<and>
   querySelector nested_root (Some [0, 0]) offer_type_select = Some [0, 0, 0, 0] \<and>
   querySelector nested_root (Some [0, 0, 2]) offer_type_select = Some [0, 0, 2, 0, 0] \<and>
   toggle_field_row nested_root [0, 0, 2] ''classes'' = Some [0, 0, 2, 2] \<and>
   offer_field_row nested_root [0, 0, 2] ''classes'' = Some [0, 0, 2, 2] \<and>
   display (nested_page ''course'' ''course'') [0, 0, 2, 2] = '''' \<and>
   display (toggleFields [0, 0] [0, 0, 0, 0]
     (nested_page ''course'' ''course''\<lparr>el_value :=
        (el_value (nested_page ''course'' ''course''))([0, 0, 0, 0] := Some ''lesson'')\<rparr>))
     [0, 0, 2, 2] = ''none'' \<and>
   display (toggleOfferFields [0, 0] [0, 0, 0, 0]
     (nested_page ''course'' ''course''\<lparr>el_value :=
        (el_value (nested_page ''course'' ''course''))([0, 0, 0, 0] := Some ''lesson'')\<rparr>))
     [0, 0, 2, 2] = ''none''"
proof -
  have low: "toLowerCase ''lesson'' = ''lesson''"
    by (rule toLowerCase_modes)
  show ?thesis
    by (simp add: nested_found toggleFields_def toggleFields_over_simps toggleOfferFields_def
        toggleOfferFields_over_simps apply_rows_at fields_def toggle_chain_def offer_switch_def
        low del: One_nat_def)
qed

text \<open>
  C5. Running the evaluation of a form twice in a row gives the same page as running it
  once, in both variants.
\<close>

theorem evaluation_idempotent:
  "toggleOfferFields inline select (toggleOfferFields inline select pg) =
     toggleOfferFields inline select pg \<and>
   toggleFields inline select (toggleFields inline select pg) = toggleFields inline select pg"
  by (simp add: toggleOfferFields_def toggleOfferFields_over_def toggleFields_def
      toggleFields_over_def apply_rows_idem)

theorem evaluation_idempotent_witness:
  "toggleOfferFields [0, 0, 0] [0, 0, 0, 0, 0]
     (toggleOfferFields [0, 0, 0] [0, 0, 0, 0, 0] (admin_page ''course'' ''lesson'')) =
     toggleOfferFields [0, 0, 0] [0, 0, 0, 0, 0] (admin_page ''course'' ''lesson'') \<and>
   toggleFields [0, 0, 0] [0, 0, 0, 0, 0]
     (toggleFields [0, 0, 0] [0, 0, 0, 0, 0] (admin_page ''course'' ''lesson'')) =
     toggleFields [0, 0, 0] [0, 0, 0, 0, 0] (admin_page ''course'' ''lesson'')"
  by (rule evaluation_idempotent)

text \<open>
  C6. The loop of either variant never throws, whichever rows are missing: the guard
  stands before the assignment that would throw on a missing row. A field whose row is
  not located is skipped, so that the evaluation is the evaluation over the other fields;
  these are still processed: the row of every located field gets the display that the
  rule of the variant gives to a field located there, which is the field itself when it
  has its row to itself. Every element that is not the row of a
  located field, so also whatever belongs to the skipped field, keeps its display.
\<close>

theorem missing_row_is_skipped:
  "run_fields (offer_field_row (root pg) inline)
     (offer_switch (map_option toLowerCase (el_value pg select))) fields (display pg) =
     Inr (display (toggleOfferFields inline select pg)) \<and>
   run_fields (toggle_field_row (root pg) inline) (toggle_chain (el_value pg select)) fields
     (display pg) = Inr (display (toggleFields inline select pg)) \<and>
   (offer_field_row (root pg) inline f = None \<longrightarrow>
      toggleOfferFields inline select pg =
        toggleOfferFields_over (removeAll f fields) inline select pg) \<and>
   (toggle_field_row (root pg) inline f = None \<longrightarrow>
      toggleFields inline select pg = toggleFields_over (removeAll f fields) inline select pg) \<and>
   (\<forall>g\<in>set fields. \<forall>r.
      offer_field_row (root pg) inline g = Some r \<and>
      (\<forall>h\<in>set fields. offer_field_row (root pg) inline h = Some r \<longrightarrow> h = g) \<longrightarrow>
        display (toggleOfferFields inline select pg) r =
          offer_switch (map_option toLowerCase (el_value pg select)) g) \<and>
   (\<forall>g\<in>set fields. \<forall>r.
      toggle_field_row (root pg) inline g = Some r \<and>
      (\<forall>h\<in>set fields. toggle_field_row (root pg) inline h = Some r \<longrightarrow> h = g) \<longrightarrow>
        display (toggleFields inline select pg) r = toggle_chain (el_value pg select) g) \<and>
   (\<forall>g\<in>set fields. \<forall>r. offer_field_row (root pg) inline g = Some r \<longrightarrow>
      (\<exists>h\<in>set fields. offer_field_row (root pg) inline h = Some r \<and>
         display (toggleOfferFields inline select pg) r =
           offer_switch (map_option toLowerCase (el_value pg select)) h)) \<and>
   (\<forall>g\<in>set fields. \<forall>r. toggle_field_row (root pg) inline g = Some r \<longrightarrow>
      (\<exists>h\<in>set fields. toggle_field_row (root pg) inline h = Some r \<and>
         display (toggleFields inline select pg) r = toggle_chain (el_value pg select) h)) \<and>
   ((\<forall>g\<in>set fields. offer_field_row (root pg) inline g \<noteq> Some p) \<longrightarrow>
      display (toggleOfferFields inline select pg) p = display pg p) \<and>
   ((\<forall>g\<in>set fields. toggle_field_row (root pg) inline g \<noteq> Some p) \<longrightarrow>
      display (toggleFields inline select pg) p = display pg p)"
proof (intro conjI impI ballI allI; (elim conjE)?)
  show "run_fields (offer_field_row (root pg) inline)
     (offer_switch (map_option toLowerCase (el_value pg select))) fields (display pg) =
     Inr (display (toggleOfferFields inline select pg))"
    by (simp add: run_fields_apply_rows toggleOfferFields_def toggleOfferFields_over_simps)
  show "run_fields (toggle_field_row (root pg) inline) (toggle_chain (el_value pg select)) fields
     (display pg) = Inr (display (toggleFields inline select pg))"
    by (simp add: run_fields_apply_rows toggleFields_def toggleFields_over_simps)
next
  assume "offer_field_row (root pg) inline f = None"
  then show "toggleOfferFields inline select pg =
      toggleOfferFields_over (removeAll f fields) inline select pg"
    unfolding toggleOfferFields_def toggleOfferFields_over_def Let_def
    using apply_rows_skip [of "offer_field_row (root pg) inline" f] by simp
next
  assume "toggle_field_row (root pg) inline f = None"
  then show "toggleFields inline select pg =
      toggleFields_over (removeAll f fields) inline select pg"
    unfolding toggleFields_def toggleFields_over_def Let_def
    using apply_rows_skip [of "toggle_field_row (root pg) inline" f] by simp
next
  fix g r
  assume g: "g \<in> set fields" "offer_field_row (root pg) inline g = Some r"
    and own: "\<forall>h\<in>set fields. offer_field_row (root pg) inline h = Some r \<longrightarrow> h = g"
  show "display (toggleOfferFields inline select pg) r =
      offer_switch (map_option toLowerCase (el_value pg select)) g"
    unfolding toggleOfferFields_def toggleOfferFields_over_simps
  proof (rule apply_rows_written [where row = "offer_field_row (root pg) inline" and f = g, OF g])
    fix h
    assume "h \<in> set fields" "offer_field_row (root pg) inline h = Some r"
    with own have "h = g" by blast
    then show "offer_switch (map_option toLowerCase (el_value pg select)) h =
        offer_switch (map_option toLowerCase (el_value pg select)) g"
      by simp
  qed
next
  fix g r
  assume g: "g \<in> set fields" "toggle_field_row (root pg) inline g = Some r"
    and own: "\<forall>h\<in>set fields. toggle_field_row (root pg) inline h = Some r \<longrightarrow> h = g"
  show "display (toggleFields inline select pg) r = toggle_chain (el_value pg select) g"
    unfolding toggleFields_def toggleFields_over_simps
  proof (rule apply_rows_written [where row = "toggle_field_row (root pg) inline" and f = g, OF g])
    fix h
    assume "h \<in> set fields" "toggle_field_row (root pg) inline h = Some r"
    with own have "h = g" by blast
    then show "toggle_chain (el_value pg select) h = toggle_chain (el_value pg select) g"
      by simp
  qed
next
  fix g r
  assume "g \<in> set fields" "offer_field_row (root pg) inline g = Some r"
  then show "\<exists>h\<in>set fields. offer_field_row (root pg) inline h = Some r \<and>
      display (toggleOfferFields inline select pg) r =
        offer_switch (map_option toLowerCase (el_value pg select)) h"
    unfolding toggleOfferFields_def toggleOfferFields_over_simps
    by (rule apply_rows_assigned)
next
  fix g r
  assume "g \<in> set fields" "toggle_field_row (root pg) inline g = Some r"
  then show "\<exists>h\<in>set fields. toggle_field_row (root pg) inline h = Some r \<and>
      display (toggleFields inline select pg) r = toggle_chain (el_value pg select) h"
    unfolding toggleFields_def toggleFields_over_simps
    by (rule apply_rows_assigned)
next
  assume "\<forall>g\<in>set fields. offer_field_row (root pg) inline g \<noteq> Some p"
  then show "display (toggleOfferFields inline select pg) p = display pg p"
    unfolding toggleOfferFields_def toggleOfferFields_over_simps
    by (intro apply_rows_frame) blast
next
  assume "\<forall>g\<in>set fields. toggle_field_row (root pg) inline g \<noteq> Some p"
  then show "display (toggleFields inline select pg) p = display pg p"
    unfolding toggleFields_def toggleFields_over_simps
    by (intro apply_rows_frame) blast
qed

theorem missing_row_is_skipped_witness:
  "offer_field_row short_root [0, 0] ''classes'' = None \<and>
   toggle_field_row short_root [0, 0] ''classes'' = None \<and>
   run_fields (offer_field_row short_root [0, 0]) (offer_switch (Some ''course'')) fields
     (\<lambda>p. '''') = Inr (display (toggleOfferFields [0, 0] [0, 0, 0, 0] (short_page ''course''))) \<and>
   run_fields (toggle_field_row short_root [0, 0]) (toggle_chain (Some ''course'')) fields
     (\<lambda>p. '''') = Inr (display (toggleFields [0, 0] [0, 0, 0, 0] (short_page ''course''))) \<and>
   toggleOfferFields [0, 0] [0, 0, 0, 0] (short_page ''course'') =
     toggleOfferFields_over [''hours'', ''students'', ''instructors'', ''level''] [0, 0]
       [0, 0, 0, 0] (short_page ''course'') \<and>
   toggleFields [0, 0] [0, 0, 0, 0] (short_page ''course'') =
     toggleFields_over [''hours'', ''students'', ''instructors'', ''level''] [0, 0]
       [0, 0, 0, 0] (short_page ''course'') \<and>
   map (display (toggleOfferFields [0, 0] [0, 0, 0, 0] (short_page ''course'')))
     [[0, 0, 1], [0, 0, 2], [0, 0, 3], [0, 1, 0]] = [''none'', ''none'', ''none'', ''''] \<and>
   map (display (toggleFields [0, 0] [0, 0, 0, 0] (short_page ''course'')))
     [[0, 0, 1], [0, 0, 2], [0, 0, 3], [0, 1, 0]] = [''none'', ''none'', ''none'', '''']"
proof -
  have others: "removeAll ''classes'' fields = [''hours'', ''students'', ''instructors'', ''level'']"
    by (simp add: fields_def)
  have none: "offer_field_row (root (short_page ''course'')) [0, 0] ''classes'' = None"
    "toggle_field_row (root (short_page ''course'')) [0, 0] ''classes'' = None"
    by simp_all
  have low: "map_option toLowerCase (el_value (short_page ''course'') [0, 0, 0, 0]) = Some ''course''"
    by (simp add: toLowerCase_modes)
  have raw: "el_value (short_page ''course'') [0, 0, 0, 0] = Some ''course''"
    by simp
  have shown: "display (short_page ''course'') = (\<lambda>p. '''')"
    by (simp add: short_page_def)
  have base: "root (short_page ''course'') = short_root"
    by simp
  have free: "\<forall>g\<in>set fields. offer_field_row (root (short_page ''course'')) [0, 0] g \<noteq> Some [0, 1, 0]"
    "\<forall>g\<in>set fields. toggle_field_row (root (short_page ''course'')) [0, 0] g \<noteq> Some [0, 1, 0]"
    by (simp_all add: fields_def del: One_nat_def)
  note skipped = missing_row_is_skipped [of "short_page ''course''" "[0, 0]" "[0, 0, 0, 0]"
      "''classes''" "[0, 1, 0]"]
  note run1 = skipped [THEN conjunct1, unfolded low shown base]
  note run2 = skipped [THEN conjunct2, THEN conjunct1, unfolded raw shown base]
  note eq1 = skipped [THEN conjunct2, THEN conjunct2, THEN conjunct1, THEN mp, OF none(1),
      unfolded others]
  note eq2 = skipped [THEN conjunct2, THEN conjunct2, THEN conjunct2, THEN conjunct1, THEN mp,
      OF none(2), unfolded others]
  note rule1 = skipped [THEN conjunct2, THEN conjunct2, THEN conjunct2, THEN conjunct2,
      THEN conjunct1, rule_format, unfolded low]
  note rule2 = skipped [THEN conjunct2, THEN conjunct2, THEN conjunct2, THEN conjunct2,
      THEN conjunct2, THEN conjunct1, rule_format, unfolded raw]
  note kept1 = skipped [THEN conjunct2, THEN conjunct2, THEN conjunct2, THEN conjunct2,
      THEN conjunct2, THEN conjunct2, THEN conjunct2, THEN conjunct2, THEN conjunct1, THEN mp,
      OF free(1), unfolded shown]
  note kept2 = skipped [THEN conjunct2, THEN conjunct2, THEN conjunct2, THEN conjunct2,
      THEN conjunct2, THEN conjunct2, THEN conjunct2, THEN conjunct2, THEN conjunct2, THEN mp,
      OF free(2), unfolded shown]
  have listed: "''hours'' \<in> set fields" "''students'' \<in> set fields"
    "''instructors'' \<in> set fields"
    by (simp_all add: fields_def)
  have hidden: "offer_switch (Some ''course'') ''hours'' = ''none''"
    "offer_switch (Some ''course'') ''students'' = ''none''"
    "offer_switch (Some ''course'') ''instructors'' = ''none''"
    "toggle_chain (Some ''course'') ''hours'' = ''none''"
    "toggle_chain (Some ''course'') ''students'' = ''none''"
    "toggle_chain (Some ''course'') ''instructors'' = ''none''"
    by (simp_all add: offer_switch_def toggle_chain_def)
  have own1: "offer_field_row (root (short_page ''course'')) [0, 0] ''hours'' = Some [0, 0, 1] \<and>
      (\<forall>h\<in>set fields. offer_field_row (root (short_page ''course'')) [0, 0] h = Some [0, 0, 1]
        \<longrightarrow> h = ''hours'')"
    "offer_field_row (root (short_page ''course'')) [0, 0] ''students'' = Some [0, 0, 2] \<and>
      (\<forall>h\<in>set fields. offer_field_row (root (short_page ''course'')) [0, 0] h = Some [0, 0, 2]
        \<longrightarrow> h = ''students'')"
    "offer_field_row (root (short_page ''course'')) [0, 0] ''instructors'' = Some [0, 0, 3] \<and>
      (\<forall>h\<in>set fields. offer_field_row (root (short_page ''course'')) [0, 0] h = Some [0, 0, 3]
        \<longrightarrow> h = ''instructors'')"
    by (simp_all add: fields_def del: One_nat_def)
  have own2: "toggle_field_row (root (short_page ''course'')) [0, 0] ''hours'' = Some [0, 0, 1] \<and>
      (\<forall>h\<in>set fields. toggle_field_row (root (short_page ''course'')) [0, 0] h = Some [0, 0, 1]
        \<longrightarrow> h = ''hours'')"
    "toggle_field_row (root (short_page ''course'')) [0, 0] ''students'' = Some [0, 0, 2] \<and>
      (\<forall>h\<in>set fields. toggle_field_row (root (short_page ''course'')) [0, 0] h = Some [0, 0, 2]
        \<longrightarrow> h = ''students'')"
    "toggle_field_row (root (short_page ''course'')) [0, 0] ''instructors'' = Some [0, 0, 3] \<and>
      (\<forall>h\<in>set fields. toggle_field_row (root (short_page ''course'')) [0, 0] h = Some [0, 0, 3]
        \<longrightarrow> h = ''instructors'')"
    by (simp_all add: fields_def del: One_nat_def)
  note rows1 = rule1 [OF listed(1) own1(1), unfolded hidden]
    rule1 [OF listed(2) own1(2), unfolded hidden]
    rule1 [OF listed(3) own1(3), unfolded hidden]
  note rows2 = rule2 [OF listed(1) own2(1), unfolded hidden]
    rule2 [OF listed(2) own2(2), unfolded hidden]
    rule2 [OF listed(3) own2(3), unfolded hidden]
  have rows: "offer_field_row short_root [0, 0] ''classes'' = None"
    "toggle_field_row short_root [0, 0] ''classes'' = None"
    using none unfolding base by simp_all
  show ?thesis
    unfolding list.map rows1 rows2 kept1 kept2
    using rows run1 run2 eq1 eq2 by (simp only: simp_thms)
qed




text \<open>
  C8. The first variant compares the lower-cased selector value, so a value and its
  lower-cased form give the same displays; the second variant compares the raw value. With
  ``Lesson'' selected the first variant shows the hours row and the second hides it, while
  the second shows it for ``lesson''.
\<close>

theorem case_sensitivity_differs:
  "display (toggleOfferFields inline select (pg\<lparr>el_value := (el_value pg)(select := Some v)\<rparr>)) =
     display (toggleOfferFields inline select
       (pg\<lparr>el_value := (el_value pg)(select := Some (toLowerCase v))\<rparr>)) \<and>
   display (toggleOfferFields [0, 0, 0] [0, 0, 0, 0, 0] (admin_page ''Lesson'' ''course''))
     [0, 0, 0, 1] = '''' \<and>
   display (toggleFields [0, 0, 0] [0, 0, 0, 0, 0] (admin_page ''Lesson'' ''course''))
     [0, 0, 0, 1] = ''none'' \<and>
   display (toggleFields [0, 0, 0] [0, 0, 0, 0, 0] (admin_page ''lesson'' ''course''))
     [0, 0, 0, 1] = ''''"
proof (intro conjI)
  show "display (toggleOfferFields inline select (pg\<lparr>el_value := (el_value pg)(select := Some v)\<rparr>)) =
     display (toggleOfferFields inline select
       (pg\<lparr>el_value := (el_value pg)(select := Some (toLowerCase v))\<rparr>))"
    by (simp add: toggleOfferFields_def toggleOfferFields_over_simps toLowerCase_idem)
  have low: "toLowerCase ''Lesson'' = ''lesson''"
    by (simp add: toLowerCase_def lower_char_def)
  show "display (toggleOfferFields [0, 0, 0] [0, 0, 0, 0, 0] (admin_page ''Lesson'' ''course''))
     [0, 0, 0, 1] = ''''"
    by (simp add: toggleOfferFields_def toggleOfferFields_over_simps apply_rows_at fields_def
        low offer_switch_def)
  show "display (toggleFields [0, 0, 0] [0, 0, 0, 0, 0] (admin_page ''Lesson'' ''course''))
     [0, 0, 0, 1] = ''none''"
    by (simp add: toggleFields_def toggleFields_over_simps apply_rows_at fields_def
        toggle_chain_def)
  show "display (toggleFields [0, 0, 0] [0, 0, 0, 0, 0] (admin_page ''lesson'' ''course''))
     [0, 0, 0, 1] = ''''"
    by (simp add: toggleFields_def toggleFields_over_simps apply_rows_at fields_def
        toggle_chain_def)
qed

theorem case_sensitivity_differs_witness:
  "display (toggleOfferFields [0, 0, 0] [0, 0, 0, 0, 0]
       (admin_page ''rental'' ''course''\<lparr>el_value :=
          (el_value (admin_page ''rental'' ''course''))([0, 0, 0, 0, 0] := Some ''COURSE'')\<rparr>)) =
     display (toggleOfferFields [0, 0, 0] [0, 0, 0, 0, 0]
       (admin_page ''rental'' ''course''\<lparr>el_value :=
          (el_value (admin_page ''rental'' ''course''))([0, 0, 0, 0, 0] := Some ''course'')\<rparr>))"
proof -
  have "toLowerCase ''COURSE'' = ''course''"
    by (simp add: toLowerCase_def lower_char_def)
  with case_sensitivity_differs [of "[0, 0, 0]" "[0, 0, 0, 0, 0]" "admin_page ''rental'' ''course''"
      "''COURSE''"]
  show ?thesis by simp
qed

text \<open>
  C9. The second variant has no branch for rental: for every selector value other than
  exactly lesson, course or experience (rental, the empty string, a missing value and
  mixed case included), the evaluation hides the row of every located field.
\<close>

theorem second_variant_hides_all_otherwise:
  assumes "el_value pg select \<notin> {Some ''lesson'', Some ''course'', Some ''experience''}"
  shows "\<forall>f\<in>set fields. \<forall>r. toggle_field_row (root pg) inline f = Some r \<longrightarrow>
           display (toggleFields inline select pg) r = ''none''"
proof (intro ballI allI impI)
  fix f r
  assume f: "f \<in> set fields" "toggle_field_row (root pg) inline f = Some r"
  have hidden: "toggle_chain (el_value pg select) g = ''none''" for g
    using assms by (intro toggle_chain_else) blast+
  have "display (toggleFields inline select pg) r = toggle_chain (el_value pg select) f"
    unfolding toggleFields_def toggleFields_over_simps
    using f by (intro apply_rows_written) (simp_all only: hidden)
  then show "display (toggleFields inline select pg) r = ''none''"
    by (simp only: hidden)
qed

theorem second_variant_hides_all_otherwise_witness:
  "Some ''rental'' \<notin> {Some ''lesson'', Some ''course'', Some ''experience''} \<and>
   toggle_field_row admin_root [0, 0, 0] ''hours'' = Some [0, 0, 0, 1] \<and>
   display (toggleFields [0, 0, 0] [0, 0, 0, 0, 0] (admin_page ''rental'' ''Course''))
     [0, 0, 0, 1] = ''none'' \<and>
   Some ''Course'' \<notin> {Some ''lesson'', Some ''course'', Some ''experience''} \<and>
   toggle_field_row admin_root [0, 0, 1] ''level'' = Some [0, 0, 1, 5] \<and>
   display (toggleFields [0, 0, 1] [0, 0, 1, 0, 0] (admin_page ''rental'' ''Course''))
     [0, 0, 1, 5] = ''none''"
proof -
  have rental: "el_value (admin_page ''rental'' ''Course'') [0, 0, 0, 0, 0]
      \<notin> {Some ''lesson'', Some ''course'', Some ''experience''}"
    and mixed: "el_value (admin_page ''rental'' ''Course'') [0, 0, 1, 0, 0]
      \<notin> {Some ''lesson'', Some ''course'', Some ''experience''}"
    by (simp_all del: One_nat_def)
  have level: "toggle_field_row admin_root [0, 0, 1] ''level'' = Some [0, 0, 1, 5]"
    by code_simp
  from second_variant_hides_all_otherwise [OF rental, of "[0, 0, 0]"]
    second_variant_hides_all_otherwise [OF mixed, of "[0, 0, 1]"] level
  show ?thesis
    by (simp add: fields_def del: One_nat_def)
qed

text \<open>
  C10. \<open>closeDrawer\<close> called without a drawer throws a TypeError. When the page has no
  \<open>.mobile-drawer\<close> element, the overlay and the close button (whichever exists) still get
  \<open>closeDrawer\<close> as their click listener, so a click on either throws and changes
  nothing.
\<close>

theorem closeDrawer_throws_without_drawer:
  assumes "querySelector t None [[Cls ''mobile-drawer'']] = None"
    and "querySelector t None [[Cls ''mobile-drawer__overlay'']] = Some p \<or>
         querySelector t None [[Cls ''mobile-drawer__close'']] = Some p"
  shows "closeDrawer None st = Inl TypeError \<and>
         (p, CloseDrawer None) \<in> set (header_loaded t) \<and>
         TypeError \<in> set (snd (click (header_loaded t) p st)) \<and>
         fst (click (header_loaded t) p st) = st"
proof -
  have throws: "closeDrawer None st = Inl TypeError"
    by (simp add: closeDrawer_def)
  have loaded: "header_loaded t =
      (case querySelector t None [[Cls ''mobile-drawer__overlay'']] of
         None \<Rightarrow> [] | Some ov \<Rightarrow> [(ov, CloseDrawer None)]) @
      (case querySelector t None [[Cls ''mobile-drawer__close'']] of
         None \<Rightarrow> [] | Some cb \<Rightarrow> [(cb, CloseDrawer None)])"
    using assms(1) by (simp add: header_loaded_def Let_def split: option.split)
  show ?thesis
    using assms(2) unfolding loaded
    by (auto simp: click_def throws split: option.split)
qed

theorem closeDrawer_throws_without_drawer_witness:
  "querySelector header_root None [[Cls ''mobile-drawer'']] = None \<and>
   querySelector header_root None [[Cls ''mobile-drawer__overlay'']] = Some [0, 1] \<and>
   closeDrawer None header_start = Inl TypeError \<and>
   ([0, 1], CloseDrawer None) \<in> set (header_loaded header_root) \<and>
   TypeError \<in> set (snd (click (header_loaded header_root) [0, 1] header_start)) \<and>
   fst (click (header_loaded header_root) [0, 1] header_start) = header_start"
proof -
  have "querySelector header_root None [[Cls ''mobile-drawer__overlay'']] = Some [0, 1] \<or>
      querySelector header_root None [[Cls ''mobile-drawer__close'']] = Some [0, 1]"
    by (simp only: header_root_found) simp
  from closeDrawer_throws_without_drawer [OF header_root_found(1) this, of header_start]
  show ?thesis
    by (simp only: header_root_found)
qed

end
